theory Spec2Isabelle
  imports Main "HOL-Library.AList" "HOL-Library.Char_ord" "HOL-Library.List_Lexorder"
begin

section \<open>tunnelman: the tunnel registry, the process supervisor and the PID ledger\<close>

text \<open>
  A shallow embedding of \<^verbatim>\<open>internal/core/tunnel.go\<close>, \<^verbatim>\<open>internal/core/process.go\<close>,
  \<^verbatim>\<open>internal/core/manager.go\<close> and \<^verbatim>\<open>internal/store/store.go\<close>.

  Conventions of the embedding:
  \<^item> Go's \<^verbatim>\<open>int\<close> is \<open>int\<close>: the code compares and prints these numbers and negates a
    process id, it never computes with them where 64-bit wrap-around could be reached.
  \<^item> Go's named string types \<^verbatim>\<open>TunnelType\<close> and \<^verbatim>\<open>TunnelStatus\<close> are strings, as in the
    source, so that values outside the declared constants exist.
  \<^item> A Go \<^verbatim>\<open>map[string]T\<close> is an association list; \<^verbatim>\<open>m[k]\<close> is \<open>map_of\<close>,
    \<^verbatim>\<open>m[k] = v\<close> is \<open>AList.update\<close>, \<^verbatim>\<open>delete(m, k)\<close> is \<open>AList.delete\<close>, and
    \<^verbatim>\<open>range m\<close> visits the list in its order (Go leaves the order unspecified).
  \<^item> An \<^verbatim>\<open>error\<close> is a value of the datatype \<open>error\<close>; \<^verbatim>\<open>nil\<close> is \<open>None\<close>.
  \<^item> A \<^verbatim>\<open>*Tunnel\<close> held by the registry is modelled by value: the registry entry is
    the tunnel, and a write through the pointer is an update of the entry.
  \<^item> A goroutine that the code starts and does not wait for is work still to be done, kept
    in the state; a separate function runs it, so that every order in which the
    goroutines may run is an expression of the model.
  \<^item> Everything the operating system decides (whether a spawn succeeds, whether a signal
    is delivered, whether a file can be written, whether a process exits in time) is read
    from an environment record, so every outcome is a branch of the model.
\<close>

subsection \<open>Errors\<close>

datatype error =
    NameRequired                 \<comment> \<open>"tunnel name is required"\<close>
  | SSHHostRequired              \<comment> \<open>"SSH host is required"\<close>
  | InvalidLocalPort int         \<comment> \<open>"invalid local port: %d"\<close>
  | InvalidRemotePort int        \<comment> \<open>"invalid remote port: %d"\<close>
  | InvalidTunnelType string     \<comment> \<open>"invalid tunnel type: %s"\<close>
  | TunnelNotFound string        \<comment> \<open>"tunnel not found: %s"\<close>
  | TunnelExists string          \<comment> \<open>"tunnel with ID %s already exists"\<close>
  | AlreadyRunning               \<comment> \<open>"tunnel is already running"\<close>
  | NotRunning                   \<comment> \<open>"tunnel is not running"\<close>
  | CannotUpdateRunning          \<comment> \<open>"cannot update running tunnel"\<close>
  | CannotDeleteRunning          \<comment> \<open>"cannot delete running tunnel"\<close>
  | InvalidPID int               \<comment> \<open>"invalid PID: %d"\<close>
  | PidDataNil                   \<comment> \<open>"pidData cannot be nil"\<close>
  | ConfigNil                    \<comment> \<open>"config cannot be nil"\<close>
  | OSError string               \<comment> \<open>an error value produced by the OS or the Go runtime\<close>
  | Wrap string error            \<comment> \<open>\<^verbatim>\<open>fmt.Errorf("<prefix>: %w", err)\<close>\<close>

subsection \<open>What the operating system decides\<close>

datatype signal = SIGTERM | SIGKILL

text \<open>
  A signal goes to one process (\<^verbatim>\<open>process.Signal\<close>, \<^verbatim>\<open>Process.Kill\<close>) or to a process group
  (\<^verbatim>\<open>syscall.Kill(-pid, sig)\<close>).
\<close>

datatype target = Process int | ProcessGroup int

type_synonym time = nat

text \<open>
  The environment of one call. Each field is the outcome of one kind of system call
  made by the code; \<open>None\<close> is a \<^verbatim>\<open>nil\<close> error. The environment is fixed for the duration of
  one operation of the model.
\<close>

record Env =
  now :: time                                       \<comment> \<open>\<^verbatim>\<open>time.Now()\<close>\<close>
  nowRFC3339 :: string                              \<comment> \<open>\<^verbatim>\<open>time.Now().UTC().Format(time.RFC3339)\<close>\<close>
  parseRFC3339 :: "string \<Rightarrow> time option"           \<comment> \<open>\<^verbatim>\<open>time.Parse(time.RFC3339, s)\<close>\<close>
  findProcessErr :: "int \<Rightarrow> error option"            \<comment> \<open>\<^verbatim>\<open>os.FindProcess(pid)\<close>\<close>
  signal0Err :: "int \<Rightarrow> error option"                \<comment> \<open>\<^verbatim>\<open>process.Signal(syscall.Signal(0))\<close>\<close>
  deliverErr :: "target \<Rightarrow> signal \<Rightarrow> error option"  \<comment> \<open>sending SIGTERM or SIGKILL\<close>
  stdoutPipeErr :: "error option"                   \<comment> \<open>\<^verbatim>\<open>cmd.StdoutPipe()\<close>\<close>
  stderrPipeErr :: "error option"                   \<comment> \<open>\<^verbatim>\<open>cmd.StderrPipe()\<close>\<close>
  startErr :: "string list \<Rightarrow> error option"         \<comment> \<open>\<^verbatim>\<open>cmd.Start()\<close> of \<^verbatim>\<open>ssh\<close> with these arguments\<close>
  startPid :: int                                   \<comment> \<open>\<^verbatim>\<open>cmd.Process.Pid\<close> of a started child\<close>
  waitReturns :: "int \<Rightarrow> bool"                      \<comment> \<open>\<^verbatim>\<open>Cmd.Wait()\<close> returns before \<^verbatim>\<open>time.After(5 * time.Second)\<close>\<close>
  pidWriteErr :: "error option"                     \<comment> \<open>\<^verbatim>\<open>os.WriteFile\<close> of the PID temp file\<close>
  pidRenameErr :: "error option"                    \<comment> \<open>\<^verbatim>\<open>os.Rename\<close> onto the PID file\<close>
  pidRemoveErr :: "error option"                    \<comment> \<open>\<^verbatim>\<open>os.Remove\<close> of an existing PID file\<close>
  configWriteErr :: "error option"                  \<comment> \<open>\<^verbatim>\<open>os.WriteFile\<close> of the config temp file\<close>
  configRenameErr :: "error option"                 \<comment> \<open>\<^verbatim>\<open>os.Rename\<close> onto the config file\<close>

subsection \<open>store: the stored types\<close>

record TunnelConfig =
  ID :: string
  Name :: string
  Host :: string
  LocalPort :: int
  RemotePort :: int
  Mode :: string
  Profile :: string
  Options :: "string list"
  AutoConnect :: bool

text \<open>\<^verbatim>\<open>PidInfo\<close>, with the field names of its JSON form.\<close>

record PidInfo =
  pid :: int
  started :: string
  tunnelId :: string

record ProfileInfo =
  Name :: string
  Description :: string
  TunnelIDs :: "string list"
  AutoConnect :: bool

record AppConfig =
  Version :: string
  Tunnels :: "TunnelConfig list"
  Profiles :: "ProfileInfo list"

record PidData =
  Pids :: "(string \<times> PidInfo) list"

definition NewPidInfo :: "Env \<Rightarrow> int \<Rightarrow> string \<Rightarrow> PidInfo" where
  "NewPidInfo env p tunnelID = \<lparr> pid = p, started = nowRFC3339 env, tunnelId = tunnelID \<rparr>"

text \<open>
  A file is modelled by what reading and parsing it gives: it does not exist, it cannot be
  read, it cannot be parsed, or it holds a value. A PID file whose \<^verbatim>\<open>pids\<close> member is absent
  parses to a \<^verbatim>\<open>nil\<close> map, which \<^verbatim>\<open>LoadPids\<close> replaces by an empty one: both are \<open>Stored []\<close>.
\<close>

datatype 'a filestate = NoFile | Unreadable error | Unparsable error | Stored 'a

subsection \<open>store.go: the PID ledger\<close>

definition isProcessRunning :: "Env \<Rightarrow> int \<Rightarrow> bool" where
  "isProcessRunning env p =
    (if p \<le> 0 then False
     else if findProcessErr env p \<noteq> None then False
     else if signal0Err env p \<noteq> None then False
     else True)"

text \<open>
  \<^verbatim>\<open>FilePidStore\<close>. \<open>content\<close> is the file at \<^verbatim>\<open>filePath\<close>. \<open>saving\<close> is not a field of the
  source: it lists the goroutines that \<^verbatim>\<open>LoadPids\<close> has started and that have not yet
  run their \<^verbatim>\<open>SavePids\<close>, each with the map it was given. Such a goroutine needs the
  write lock, so it runs at some moment when no call on the store holds the lock; the
  source fixes no order between it and later calls on the store. The lock itself is left
  out.
\<close>

record FilePidStore =
  content :: "(string \<times> PidInfo) list filestate"
  saving :: "PidData list"

text \<open>
  \<^verbatim>\<open>SavePids\<close>: a \<^verbatim>\<open>nil\<close> argument is an error; an empty map removes the file (a file that
  is not there is no error); otherwise the data is written to a temporary file that is
  renamed onto the target. \<^verbatim>\<open>json.MarshalIndent\<close> cannot fail on this type. The result is
  the error and the store afterwards.
\<close>

definition SavePids :: "Env \<Rightarrow> PidData option \<Rightarrow> FilePidStore \<Rightarrow> error option \<times> FilePidStore" where
  "SavePids env pidData fps =
    (case pidData of
       None \<Rightarrow> (Some PidDataNil, fps)
     | Some d \<Rightarrow>
        if length (Pids d) = 0 then
          (case content fps of
             NoFile \<Rightarrow> (None, fps)
           | _ \<Rightarrow> (case pidRemoveErr env of
                     Some err \<Rightarrow> (Some (Wrap ''failed to remove empty PID file'' err), fps)
                   | None \<Rightarrow> (None, fps\<lparr> content := NoFile \<rparr>)))
        else
          (case pidWriteErr env of
             Some err \<Rightarrow> (Some (Wrap ''failed to write PID file'' err), fps)
           | None \<Rightarrow>
              (case pidRenameErr env of
                 Some err \<Rightarrow> (Some (Wrap ''failed to save PID file'' err), fps)
               | None \<Rightarrow> (None, fps\<lparr> content := Stored (Pids d) \<rparr>))))"

text \<open>The loop of \<^verbatim>\<open>LoadPids\<close> that copies the entries of running processes into a new map.\<close>

definition cleanPids :: "Env \<Rightarrow> (string \<times> PidInfo) list \<Rightarrow> (string \<times> PidInfo) list" where
  "cleanPids env pids =
    fold (\<lambda>(tunnelID, entry) cleaned.
            if isProcessRunning env (pid entry) then AList.update tunnelID entry cleaned else cleaned)
         pids []"

text \<open>
  \<^verbatim>\<open>LoadPids\<close> returns the error or the cleaned data and does not write the file. When
  entries were dropped it starts a goroutine that will save the cleaned data: the
  goroutine is added to \<open>saving\<close>.
\<close>

definition LoadPids :: "Env \<Rightarrow> FilePidStore \<Rightarrow> (error + PidData) \<times> FilePidStore" where
  "LoadPids env fps =
    (case content fps of
       NoFile \<Rightarrow> (Inr \<lparr> Pids = [] \<rparr>, fps)
     | Unreadable err \<Rightarrow> (Inl (Wrap ''failed to read PID file'' err), fps)
     | Unparsable err \<Rightarrow> (Inl (Wrap ''failed to parse PID file'' err), fps)
     | Stored pids \<Rightarrow>
        (let cleanedData = \<lparr> Pids = cleanPids env pids \<rparr>
         in if length (Pids cleanedData) \<noteq> length pids
            then (Inr cleanedData, fps\<lparr> saving := saving fps @ [cleanedData] \<rparr>)
            else (Inr cleanedData, fps)))"

text \<open>
  The body of the goroutine, \<^verbatim>\<open>_ = fps.SavePids(cleanedData)\<close>, for the goroutine at position
  \<open>i\<close> of \<open>saving\<close>: it saves its map, drops the result, and is finished. The goroutines
  may run in any order, so the position is a parameter.
\<close>

definition runSaving :: "Env \<Rightarrow> nat \<Rightarrow> FilePidStore \<Rightarrow> FilePidStore" where
  "runSaving env i fps =
    (if i < length (saving fps)
     then (snd (SavePids env (Some (saving fps ! i)) fps))
            \<lparr> saving := take i (saving fps) @ drop (Suc i) (saving fps) \<rparr>
     else fps)"

text \<open>
  \<^verbatim>\<open>AddPid\<close> and \<^verbatim>\<open>RemovePid\<close> change the map that \<^verbatim>\<open>LoadPids\<close> returned and save it. A
  goroutine that this \<^verbatim>\<open>LoadPids\<close> started holds a pointer to the same map, so what it
  will save is the changed map: \<open>shareMap\<close> puts the changed map in the place of the map
  of every goroutine started since \<open>before\<close>. In the model a goroutine runs between two
  calls on the store, not between the \<^verbatim>\<open>LoadPids\<close> and the \<^verbatim>\<open>SavePids\<close> of one \<^verbatim>\<open>AddPid\<close> or
  \<^verbatim>\<open>RemovePid\<close>.
\<close>

definition shareMap :: "FilePidStore \<Rightarrow> PidData \<Rightarrow> FilePidStore \<Rightarrow> FilePidStore" where
  "shareMap before pidData fps =
    fps\<lparr> saving := take (length (saving before)) (saving fps)
                    @ map (\<lambda>d. pidData) (drop (length (saving before)) (saving fps)) \<rparr>"

definition AddPid :: "Env \<Rightarrow> string \<Rightarrow> int \<Rightarrow> FilePidStore \<Rightarrow> error option \<times> FilePidStore" where
  "AddPid env tunnelID p fps =
    (case LoadPids env fps of
       (Inl err, fps') \<Rightarrow> (Some (Wrap ''failed to load PIDs'' err), fps')
     | (Inr pidData, fps') \<Rightarrow>
        (let pidData' = pidData\<lparr> Pids := AList.update tunnelID (NewPidInfo env p tunnelID) (Pids pidData) \<rparr>
         in SavePids env (Some pidData') (shareMap fps pidData' fps')))"

definition RemovePid :: "Env \<Rightarrow> string \<Rightarrow> FilePidStore \<Rightarrow> error option \<times> FilePidStore" where
  "RemovePid env tunnelID fps =
    (case LoadPids env fps of
       (Inl err, fps') \<Rightarrow> (Some (Wrap ''failed to load PIDs'' err), fps')
     | (Inr pidData, fps') \<Rightarrow>
        (let pidData' = pidData\<lparr> Pids := AList.delete tunnelID (Pids pidData) \<rparr>
         in SavePids env (Some pidData') (shareMap fps pidData' fps')))"

subsection \<open>config.go: the configuration store\<close>

definition LoadConfig :: "AppConfig filestate \<Rightarrow> error + AppConfig" where
  "LoadConfig f =
    (case f of
       NoFile \<Rightarrow> Inr \<lparr> Version = ''1.0.0'', Tunnels = [], Profiles = [] \<rparr>
     | Unreadable err \<Rightarrow> Inl (Wrap ''failed to read config file'' err)
     | Unparsable err \<Rightarrow> Inl (Wrap ''failed to parse config file'' err)
     | Stored config \<Rightarrow> Inr config)"

definition SaveConfig :: "Env \<Rightarrow> AppConfig option \<Rightarrow> AppConfig filestate \<Rightarrow> error option \<times> AppConfig filestate" where
  "SaveConfig env config f =
    (case config of
       None \<Rightarrow> (Some ConfigNil, f)
     | Some c \<Rightarrow>
        (case configWriteErr env of
           Some err \<Rightarrow> (Some (Wrap ''failed to write config file'' err), f)
         | None \<Rightarrow>
            (case configRenameErr env of
               Some err \<Rightarrow> (Some (Wrap ''failed to save config file'' err), f)
             | None \<Rightarrow> (None, Stored c))))"

subsection \<open>process.go: the supervisor's types\<close>

text \<open>\<^verbatim>\<open>PidEntry\<close>, what \<^verbatim>\<open>Connect\<close> returns.\<close>

record PidEntry =
  PID :: int
  Started :: string
  TunnelID :: string

definition NewPidEntry :: "Env \<Rightarrow> int \<Rightarrow> string \<Rightarrow> PidEntry" where
  "NewPidEntry env p tunnelID = \<lparr> PID = p, Started = nowRFC3339 env, TunnelID = tunnelID \<rparr>"

text \<open>
  \<^verbatim>\<open>ProcessInfo\<close>, the handle of a child. \<^verbatim>\<open>Cmd\<close> is the process id behind \<^verbatim>\<open>Cmd.Process\<close>.
  The back pointer \<^verbatim>\<open>Tunnel\<close>, the context with its \<^verbatim>\<open>cancel\<close> function (nothing in the
  repository waits on that context) and the two readers are left out.
\<close>

record ProcessInfo =
  Cmd :: int
  PID :: int
  StartedAt :: time

text \<open>
  What the supervisor asked of the operating system, in the order it asked: a child
  started for a tunnel identifier with an argument list and the process id it got, a
  signal sent, and a bounded wait (in seconds) for the exit of a child.
\<close>

datatype os_action =
    Exec string "string list" int
  | Kill target signal
  | WaitExit int nat

text \<open>
  \<^verbatim>\<open>ProcessManager\<close>: the flag \<^verbatim>\<open>debug\<close> and the table \<^verbatim>\<open>processes\<close>. The logger is left out.
  \<open>effects\<close> is not a field of the source: it records the requests made to the operating
  system, so that theorems can speak about them.
\<close>

record ProcessManager =
  debug :: bool
  processes :: "(string \<times> ProcessInfo) list"
  effects :: "os_action list"

subsection \<open>tunnel.go: the tunnel record\<close>

type_synonym TunnelType = string
type_synonym TunnelStatus = string

definition LocalForward :: TunnelType where "LocalForward = ''local''"
definition RemoteForward :: TunnelType where "RemoteForward = ''remote''"
definition DynamicForward :: TunnelType where "DynamicForward = ''dynamic''"

definition StatusStopped :: TunnelStatus where "StatusStopped = ''stopped''"
definition StatusRunning :: TunnelStatus where "StatusRunning = ''running''"
definition StatusError :: TunnelStatus where "StatusError = ''error''"
definition StatusConnecting :: TunnelStatus where "StatusConnecting = ''connecting''"

text \<open>
  The struct \<^verbatim>\<open>Tunnel\<close>. The lock \<^verbatim>\<open>mu\<close> has no sequential content and is left out;
  \<^verbatim>\<open>process *exec.Cmd\<close> is the process id of the command it points to, if any.
\<close>

record Tunnel =
  ID :: string
  Name :: string
  Type :: TunnelType
  LocalHost :: string
  LocalPort :: int
  RemoteHost :: string
  RemotePort :: int
  SSHHost :: string
  ExtraArgs :: "string list"
  AutoConnect :: bool
  Profile :: string
  Status :: TunnelStatus
  PID :: int
  StartedAt :: "time option"
  LastError :: "error option"
  process :: "int option"

text \<open>
  \<^verbatim>\<open>Validate\<close> returns an error or \<^verbatim>\<open>nil\<close>, and writes \<^verbatim>\<open>RemoteHost\<close> through its receiver
  on one path. The model returns the error (if any) together with the tunnel as the call
  leaves it.
\<close>

definition Validate :: "Tunnel \<Rightarrow> error option \<times> Tunnel" where
  "Validate t =
    (if Name t = [] then (Some NameRequired, t)
     else if SSHHost t = [] then (Some SSHHostRequired, t)
     else if Type t = LocalForward then
       (if LocalPort t \<le> 0 \<or> LocalPort t > 65535 then (Some (InvalidLocalPort (LocalPort t)), t)
        else if RemotePort t \<le> 0 \<or> RemotePort t > 65535 then (Some (InvalidRemotePort (RemotePort t)), t)
        else if RemoteHost t = [] then (None, t\<lparr>RemoteHost := ''127.0.0.1''\<rparr>)
        else (None, t))
     else if Type t = RemoteForward then
       (if LocalPort t \<le> 0 \<or> LocalPort t > 65535 then (Some (InvalidLocalPort (LocalPort t)), t)
        else if RemotePort t \<le> 0 \<or> RemotePort t > 65535 then (Some (InvalidRemotePort (RemotePort t)), t)
        else (None, t))
     else if Type t = DynamicForward then
       (if LocalPort t \<le> 0 \<or> LocalPort t > 65535 then (Some (InvalidLocalPort (LocalPort t)), t)
        else (None, t))
     else (Some (InvalidTunnelType (Type t)), t))"

text \<open>
  \<^verbatim>\<open>Clone\<close> builds a new struct from the fields it lists. \<^verbatim>\<open>Profile\<close> and \<^verbatim>\<open>process\<close> are not
  among them, so the clone has their zero values. \<^verbatim>\<open>ExtraArgs\<close> is copied only when it is
  non-empty (otherwise it stays \<^verbatim>\<open>nil\<close>, the empty list).
\<close>

definition Clone :: "Tunnel \<Rightarrow> Tunnel" where
  "Clone t =
    \<lparr> ID = ID t, Name = Name t, Type = Type t,
      LocalHost = LocalHost t, LocalPort = LocalPort t,
      RemoteHost = RemoteHost t, RemotePort = RemotePort t,
      SSHHost = SSHHost t,
      ExtraArgs = (if length (ExtraArgs t) > 0 then ExtraArgs t else []),
      AutoConnect = AutoConnect t,
      Profile = [],
      Status = Status t, PID = PID t,
      StartedAt = (case StartedAt t of None \<Rightarrow> None | Some s \<Rightarrow> Some s),
      LastError = LastError t,
      process = None \<rparr>"

subsection \<open>Formatting integers: the verb \<^verbatim>\<open>%d\<close>\<close>

definition digit :: "nat \<Rightarrow> char" where
  "digit d = ''0123456789'' ! d"

fun fmt_nat :: "nat \<Rightarrow> string" where
  "fmt_nat n = (if n < 10 then [digit n] else fmt_nat (n div 10) @ [digit (n mod 10)])"

declare fmt_nat.simps [simp del]

definition fmt_d :: "int \<Rightarrow> string" where
  "fmt_d i = (if i < 0 then CHR ''-'' # fmt_nat (nat (- i)) else fmt_nat (nat i))"

subsection \<open>process.go: building the ssh invocation\<close>

text \<open>The fixed options appended after the forwarding flag ("Common SSH options for tunnel stability").\<close>

definition stabilityOptions :: "string list" where
  "stabilityOptions =
    [''-N'', ''-T'',
     ''-o'', ''ServerAliveInterval=60'',
     ''-o'', ''ServerAliveCountMax=3'',
     ''-o'', ''ExitOnForwardFailure=yes'',
     ''-o'', ''StrictHostKeyChecking=accept-new'',
     ''-o'', ''ControlMaster=no'',
     ''-o'', ''ControlPath=none'']"

text \<open>The \<^verbatim>\<open>switch tunnel.Type\<close> of \<^verbatim>\<open>buildSSHArgs\<close>; a type outside the three cases adds nothing.\<close>

definition forwardArgs :: "Tunnel \<Rightarrow> string list" where
  "forwardArgs t =
    (if Type t = LocalForward then
       [''-L'', LocalHost t @ '':'' @ fmt_d (LocalPort t) @ '':'' @ RemoteHost t @ '':'' @ fmt_d (RemotePort t)]
     else if Type t = RemoteForward then
       (let localHost = (if LocalHost t = [] \<or> LocalHost t = ''0.0.0.0'' then ''127.0.0.1'' else LocalHost t)
        in [''-R'', fmt_d (RemotePort t) @ '':'' @ localHost @ '':'' @ fmt_d (LocalPort t)])
     else if Type t = DynamicForward then
       [''-D'', LocalHost t @ '':'' @ fmt_d (LocalPort t)]
     else [])"

text \<open>\<^verbatim>\<open>buildSSHArgs\<close>; the first argument is the supervisor's \<^verbatim>\<open>debug\<close> flag.\<close>

definition buildSSHArgs :: "bool \<Rightarrow> Tunnel \<Rightarrow> string list" where
  "buildSSHArgs dbg t =
    (let args = forwardArgs t;
         args = args @ stabilityOptions;
         args = (if length (ExtraArgs t) > 0 then args @ ExtraArgs t else args);
         args = (if dbg then args @ [''-v''] else args)
     in args @ [SSHHost t])"

subsection \<open>process.go: spawning and terminating\<close>

definition NewProcessManager :: "bool \<Rightarrow> ProcessManager" where
  "NewProcessManager dbg = \<lparr> debug = dbg, processes = [], effects = [] \<rparr>"

text \<open>
  \<^verbatim>\<open>Connect\<close> validates the tunnel (through the pointer, so the caller's tunnel is the
  validated one afterwards), builds the arguments, creates the pipes in debug mode, and
  starts the child. The registry never hands it a \<^verbatim>\<open>nil\<close> tunnel.
\<close>

definition Connect :: "Env \<Rightarrow> Tunnel \<Rightarrow> ProcessManager \<Rightarrow> (error + PidEntry) \<times> Tunnel \<times> ProcessManager" where
  "Connect env tunnel pm =
    (case Validate tunnel of
       (Some err, tunnel') \<Rightarrow> (Inl (Wrap ''invalid tunnel configuration'' err), tunnel', pm)
     | (None, tunnel') \<Rightarrow>
        (let args = buildSSHArgs (debug pm) tunnel' in
         case (if debug pm then stdoutPipeErr env else None) of
           Some err \<Rightarrow> (Inl (Wrap ''failed to create stdout pipe'' err), tunnel', pm)
         | None \<Rightarrow>
            (case (if debug pm then stderrPipeErr env else None) of
               Some err \<Rightarrow> (Inl (Wrap ''failed to create stderr pipe'' err), tunnel', pm)
             | None \<Rightarrow>
                (case startErr env args of
                   Some err \<Rightarrow> (Inl (Wrap ''failed to start SSH process'' err), tunnel', pm)
                 | None \<Rightarrow>
                    (let processInfo = \<lparr> Cmd = startPid env, PID = startPid env, StartedAt = now env \<rparr>;
                         pm' = pm\<lparr> processes := AList.update (ID tunnel') processInfo (processes pm),
                                   effects := effects pm @ [Exec (ID tunnel') args (startPid env)] \<rparr>
                     in (Inr (NewPidEntry env (startPid env) (ID tunnel')), tunnel', pm'))))))"

definition GetProcessInfo :: "ProcessManager \<Rightarrow> string \<Rightarrow> ProcessInfo option" where
  "GetProcessInfo pm ident = map_of (processes pm) ident"

text \<open>\<^verbatim>\<open>terminateProcess\<close> and \<^verbatim>\<open>killProcess\<close>: \<^verbatim>\<open>syscall.Kill(-process.Pid, sig)\<close>, the process group.\<close>

definition terminateProcess :: "Env \<Rightarrow> int \<Rightarrow> ProcessManager \<Rightarrow> error option \<times> ProcessManager" where
  "terminateProcess env p pm =
    (deliverErr env (ProcessGroup p) SIGTERM, pm\<lparr> effects := effects pm @ [Kill (ProcessGroup p) SIGTERM] \<rparr>)"

definition killProcess :: "Env \<Rightarrow> int \<Rightarrow> ProcessManager \<Rightarrow> error option \<times> ProcessManager" where
  "killProcess env p pm =
    (deliverErr env (ProcessGroup p) SIGKILL, pm\<lparr> effects := effects pm @ [Kill (ProcessGroup p) SIGKILL] \<rparr>)"

text \<open>\<^verbatim>\<open>killProcessByPID\<close>: the fallback without a handle signals the bare process id.\<close>

definition killProcessByPID :: "Env \<Rightarrow> int \<Rightarrow> ProcessManager \<Rightarrow> error option \<times> ProcessManager" where
  "killProcessByPID env p pm =
    (if p \<le> 0 then (Some (InvalidPID p), pm)
     else case findProcessErr env p of
       Some err \<Rightarrow> (Some (Wrap ''failed to find process'' err), pm)
     | None \<Rightarrow>
        (let pm1 = pm\<lparr> effects := effects pm @ [Kill (Process p) SIGTERM] \<rparr> in
         case deliverErr env (Process p) SIGTERM of
           None \<Rightarrow> (None, pm1)
         | Some _ \<Rightarrow>
            (let pm2 = pm1\<lparr> effects := effects pm1 @ [Kill (Process p) SIGKILL] \<rparr> in
             case deliverErr env (Process p) SIGKILL of
               None \<Rightarrow> (None, pm2)
             | Some err \<Rightarrow> (Some (Wrap ''failed to kill process'' err), pm2))))"

text \<open>
  The second half of \<^verbatim>\<open>Disconnect\<close>: wait for \<^verbatim>\<open>Cmd.Wait()\<close> or for five seconds, whichever
  comes first; after five seconds call \<^verbatim>\<open>Cmd.Process.Kill()\<close>, which signals the process
  itself and whose result is dropped; then delete the handle.
\<close>

definition Disconnect_wait :: "Env \<Rightarrow> string \<Rightarrow> ProcessInfo \<Rightarrow> ProcessManager \<Rightarrow> error option \<times> ProcessManager" where
  "Disconnect_wait env ident processInfo pm =
    (let pm1 = pm\<lparr> effects := effects pm @ [WaitExit (Cmd processInfo) 5] \<rparr>;
         pm2 = (if waitReturns env (Cmd processInfo) then pm1
                else pm1\<lparr> effects := effects pm1 @ [Kill (Process (Cmd processInfo)) SIGKILL] \<rparr>)
     in (None, pm2\<lparr> processes := AList.delete ident (processes pm2) \<rparr>))"

definition Disconnect :: "Env \<Rightarrow> string \<Rightarrow> int \<Rightarrow> ProcessManager \<Rightarrow> error option \<times> ProcessManager" where
  "Disconnect env ident p pm =
    (case map_of (processes pm) ident of
       None \<Rightarrow> killProcessByPID env p pm
     | Some processInfo \<Rightarrow>
        (case terminateProcess env (Cmd processInfo) pm of
           (None, pm1) \<Rightarrow> Disconnect_wait env ident processInfo pm1
         | (Some _, pm1) \<Rightarrow>
            (case killProcess env (Cmd processInfo) pm1 of
               (Some err, pm2) \<Rightarrow> (Some (Wrap ''failed to kill process'' err), pm2)
             | (None, pm2) \<Rightarrow> Disconnect_wait env ident processInfo pm2)))"

subsection \<open>manager.go: the registry\<close>

record TunnelStatusChange =
  TunnelID :: string
  OldStatus :: TunnelStatus
  NewStatus :: TunnelStatus
  Error :: "error option"

text \<open>
  A buffered Go channel, seen from the sender: \<^verbatim>\<open>make(chan T, n)\<close> has capacity \<open>n\<close> and an
  empty buffer.
\<close>

record 'a chan =
  capacity :: nat
  buffer :: "'a list"

definition make_chan :: "nat \<Rightarrow> 'a chan" where
  "make_chan n = \<lparr> capacity = n, buffer = [] \<rparr>"

text \<open>A send \<^verbatim>\<open>c <- v\<close>: the channel with the value appended, or \<open>None\<close> when the sender would block.\<close>

definition chan_send :: "'a \<Rightarrow> 'a chan \<Rightarrow> 'a chan option" where
  "chan_send v c = (if length (buffer c) < capacity c then Some (c\<lparr> buffer := buffer c @ [v] \<rparr>) else None)"

text \<open>\<^verbatim>\<open>select { case c <- v: default: }\<close>: the send when it would not block, nothing otherwise.\<close>

definition trySend :: "'a \<Rightarrow> 'a chan \<Rightarrow> 'a chan" where
  "trySend v c = (case chan_send v c of Some c' \<Rightarrow> c' | None \<Rightarrow> c)"

text \<open>
  \<^verbatim>\<open>TunnelManager\<close>. The two stores are modelled by the files behind them; the lock is
  left out.
\<close>

record TunnelManager =
  tunnels :: "(string \<times> Tunnel) list"
  configStore :: "AppConfig filestate"
  pidStore :: FilePidStore
  processManager :: ProcessManager
  debug :: bool
  statusChanges :: "TunnelStatusChange chan"

definition notifyStatusChange :: "string \<Rightarrow> TunnelStatus \<Rightarrow> TunnelStatus \<Rightarrow> error option
    \<Rightarrow> TunnelManager \<Rightarrow> TunnelManager" where
  "notifyStatusChange tunnelID oldStatus newStatus err tm =
    tm\<lparr> statusChanges :=
          trySend \<lparr> TunnelID = tunnelID, OldStatus = oldStatus, NewStatus = newStatus, Error = err \<rparr>
                  (statusChanges tm) \<rparr>"

text \<open>\<^verbatim>\<open>loadTunnels\<close>: one registry entry per stored tunnel; a config that cannot be loaded leaves the registry empty.\<close>

definition tunnelOfConfig :: "TunnelConfig \<Rightarrow> Tunnel" where
  "tunnelOfConfig tc =
    (let mode = (if Mode tc = ''forward'' then ''local''
                 else if Mode tc = ''reverse'' then ''remote'' else Mode tc);
         tunnel = \<lparr> ID = TunnelConfig.ID tc, Name = TunnelConfig.Name tc, Type = mode,
                    LocalHost = ''0.0.0.0'', LocalPort = TunnelConfig.LocalPort tc,
                    RemoteHost = [], RemotePort = TunnelConfig.RemotePort tc,
                    SSHHost = Host tc, ExtraArgs = Options tc,
                    AutoConnect = TunnelConfig.AutoConnect tc, Profile = TunnelConfig.Profile tc,
                    Status = StatusStopped, PID = 0, StartedAt = None, LastError = None,
                    process = None \<rparr>;
         tunnel = (if Profile tunnel = [] then tunnel\<lparr> Profile := ''default'' \<rparr> else tunnel);
         tunnel = (if Type tunnel = LocalForward \<and> RemoteHost tunnel = []
                   then tunnel\<lparr> RemoteHost := ''127.0.0.1'' \<rparr> else tunnel)
     in tunnel)"

definition loadTunnels :: "TunnelManager \<Rightarrow> TunnelManager" where
  "loadTunnels tm =
    (case LoadConfig (configStore tm) of
       Inl err \<Rightarrow> tm
     | Inr config \<Rightarrow>
        fold (\<lambda>tc tm. tm\<lparr> tunnels := AList.update (TunnelConfig.ID tc) (tunnelOfConfig tc) (tunnels tm) \<rparr>)
             (Tunnels config) tm)"

text \<open>\<^verbatim>\<open>saveTunnels\<close>: the whole registry and the profiles it mentions, written as one config.\<close>

definition configOfTunnel :: "Tunnel \<Rightarrow> TunnelConfig" where
  "configOfTunnel t =
    \<lparr> TunnelConfig.ID = ID t, TunnelConfig.Name = Name t, Host = SSHHost t,
      TunnelConfig.LocalPort = LocalPort t, TunnelConfig.RemotePort = RemotePort t,
      Mode = Type t, TunnelConfig.Profile = Profile t, Options = ExtraArgs t,
      TunnelConfig.AutoConnect = AutoConnect t \<rparr>"

definition configOfManager :: "TunnelManager \<Rightarrow> AppConfig" where
  "configOfManager tm =
    (let tunnelConfigs = map (\<lambda>(k, t). configOfTunnel t) (tunnels tm);
         profileMap = fold (\<lambda>(k, t) pm.
                              if Profile t \<noteq> [] \<and> Profile t \<noteq> ''default''
                              then AList.update (Profile t) True pm else pm)
                           (tunnels tm) [(''default'', True)];
         profiles = map (\<lambda>(name, b). \<lparr> ProfileInfo.Name = name, Description = name @ '' profile'',
                                        TunnelIDs = [], ProfileInfo.AutoConnect = False \<rparr>) profileMap
     in \<lparr> Version = ''1.0'', Tunnels = tunnelConfigs, Profiles = profiles \<rparr>)"

definition saveTunnels :: "Env \<Rightarrow> TunnelManager \<Rightarrow> error option \<times> TunnelManager" where
  "saveTunnels env tm =
    (case SaveConfig env (Some (configOfManager tm)) (configStore tm) of
       (err, f) \<Rightarrow> (err, tm\<lparr> configStore := f \<rparr>))"

definition AddTunnel :: "Env \<Rightarrow> Tunnel \<Rightarrow> TunnelManager \<Rightarrow> error option \<times> TunnelManager" where
  "AddTunnel env tunnel tm =
    (case Validate tunnel of
       (Some err, tunnel') \<Rightarrow> (Some (Wrap ''invalid tunnel configuration'' err), tm)
     | (None, tunnel') \<Rightarrow>
        (case map_of (tunnels tm) (ID tunnel') of
           Some existing \<Rightarrow> (Some (TunnelExists (ID tunnel')), tm)
         | None \<Rightarrow>
            (case saveTunnels env (tm\<lparr> tunnels := AList.update (ID tunnel') tunnel' (tunnels tm) \<rparr>) of
               (Some err, tm') \<Rightarrow>
                 (Some (Wrap ''failed to save tunnel'' err),
                  tm'\<lparr> tunnels := AList.delete (ID tunnel') (tunnels tm') \<rparr>)
             | (None, tm') \<Rightarrow> (None, tm'))))"

definition UpdateTunnel :: "Env \<Rightarrow> Tunnel \<Rightarrow> TunnelManager \<Rightarrow> error option \<times> TunnelManager" where
  "UpdateTunnel env tunnel tm =
    (case Validate tunnel of
       (Some err, tunnel') \<Rightarrow> (Some (Wrap ''invalid tunnel configuration'' err), tm)
     | (None, tunnel') \<Rightarrow>
        (case map_of (tunnels tm) (ID tunnel') of
           None \<Rightarrow> (Some (TunnelNotFound (ID tunnel')), tm)
         | Some existing \<Rightarrow>
            if Status existing = StatusRunning then (Some CannotUpdateRunning, tm)
            else
              (case saveTunnels env (tm\<lparr> tunnels := AList.update (ID tunnel') tunnel' (tunnels tm) \<rparr>) of
                 (Some err, tm') \<Rightarrow>
                   (Some (Wrap ''failed to save tunnel'' err),
                    tm'\<lparr> tunnels := AList.update (ID tunnel') existing (tunnels tm') \<rparr>)
               | (None, tm') \<Rightarrow> (None, tm'))))"

definition DeleteTunnel :: "Env \<Rightarrow> string \<Rightarrow> TunnelManager \<Rightarrow> error option \<times> TunnelManager" where
  "DeleteTunnel env ident tm =
    (case map_of (tunnels tm) ident of
       None \<Rightarrow> (Some (TunnelNotFound ident), tm)
     | Some tunnel \<Rightarrow>
        if Status tunnel = StatusRunning then (Some CannotDeleteRunning, tm)
        else
          (case saveTunnels env (tm\<lparr> tunnels := AList.delete ident (tunnels tm) \<rparr>) of
             (Some err, tm') \<Rightarrow>
               (Some (Wrap ''failed to save config'' err),
                tm'\<lparr> tunnels := AList.update ident tunnel (tunnels tm') \<rparr>)
           | (None, tm') \<Rightarrow> (None, tm')))"

text \<open>
  \<^verbatim>\<open>StartTunnel\<close> runs in three critical sections with the lock released in between. The
  first one looks the tunnel up, refuses a running one, marks it as connecting and
  publishes the change. It yields the tunnel behind the pointer that the rest of the call
  keeps using.
\<close>

definition StartTunnel_begin :: "string \<Rightarrow> TunnelManager \<Rightarrow> error + (Tunnel \<times> TunnelManager)" where
  "StartTunnel_begin ident tm =
    (case map_of (tunnels tm) ident of
       None \<Rightarrow> Inl (TunnelNotFound ident)
     | Some tunnel \<Rightarrow>
        if Status tunnel = StatusRunning then Inl AlreadyRunning
        else
          (let oldStatus = Status tunnel;
               tunnel1 = tunnel\<lparr> Status := StatusConnecting \<rparr>;
               tm1 = tm\<lparr> tunnels := AList.update ident tunnel1 (tunnels tm) \<rparr>
           in Inr (tunnel1, notifyStatusChange ident oldStatus StatusConnecting None tm1)))"

text \<open>
  The rest of \<^verbatim>\<open>StartTunnel\<close>: the call of \<^verbatim>\<open>Connect\<close>, then the failure path or the success
  path. The result of \<^verbatim>\<open>AddPid\<close> is only printed in debug mode. The goroutine
  \<^verbatim>\<open>monitorTunnel\<close> started at the end runs in the background and is not part of the call.
\<close>

definition StartTunnel_connect :: "Env \<Rightarrow> string \<Rightarrow> Tunnel \<Rightarrow> TunnelManager \<Rightarrow> error option \<times> TunnelManager" where
  "StartTunnel_connect env ident tunnel tm =
    (case Connect env tunnel (processManager tm) of
       (Inl err, tunnel', pm') \<Rightarrow>
         (let tunnel2 = tunnel'\<lparr> Status := StatusError, LastError := Some err \<rparr>;
              tm1 = tm\<lparr> processManager := pm', tunnels := AList.update ident tunnel2 (tunnels tm) \<rparr>
          in (Some (Wrap ''failed to start tunnel'' err),
              notifyStatusChange ident StatusConnecting StatusError (Some err) tm1))
     | (Inr pidEntry, tunnel', pm') \<Rightarrow>
         (let tunnel2 = tunnel'\<lparr> PID := PidEntry.PID pidEntry, StartedAt := Some (now env),
                                 Status := StatusRunning, LastError := None \<rparr>;
              tunnel3 = (case GetProcessInfo pm' ident of
                           Some processInfo \<Rightarrow> tunnel2\<lparr> process := Some (Cmd processInfo) \<rparr>
                         | None \<Rightarrow> tunnel2);
              tm1 = tm\<lparr> processManager := pm', tunnels := AList.update ident tunnel3 (tunnels tm) \<rparr>;
              tm2 = tm1\<lparr> pidStore := snd (AddPid env ident (PidEntry.PID pidEntry) (pidStore tm1)) \<rparr>
          in (None, notifyStatusChange ident StatusConnecting StatusRunning None tm2)))"

definition StartTunnel :: "Env \<Rightarrow> string \<Rightarrow> TunnelManager \<Rightarrow> error option \<times> TunnelManager" where
  "StartTunnel env ident tm =
    (case StartTunnel_begin ident tm of
       Inl err \<Rightarrow> (Some err, tm)
     | Inr (tunnel, tm1) \<Rightarrow> StartTunnel_connect env ident tunnel tm1)"

text \<open>
  \<^verbatim>\<open>StopTunnel\<close>. The result of \<^verbatim>\<open>Disconnect\<close> is only printed in debug mode and the result
  of \<^verbatim>\<open>RemovePid\<close> is dropped.
\<close>

definition StopTunnel :: "Env \<Rightarrow> string \<Rightarrow> TunnelManager \<Rightarrow> error option \<times> TunnelManager" where
  "StopTunnel env ident tm =
    (case map_of (tunnels tm) ident of
       None \<Rightarrow> (Some (TunnelNotFound ident), tm)
     | Some tunnel \<Rightarrow>
        if Status tunnel \<noteq> StatusRunning then (Some NotRunning, tm)
        else
          (let p = PID tunnel;
               oldStatus = Status tunnel;
               pm' = snd (Disconnect env ident p (processManager tm));
               tunnel' = tunnel\<lparr> Status := StatusStopped, process := None, PID := 0, StartedAt := None \<rparr>;
               tm1 = tm\<lparr> processManager := pm', tunnels := AList.update ident tunnel' (tunnels tm) \<rparr>;
               tm2 = tm1\<lparr> pidStore := snd (RemovePid env ident (pidStore tm1)) \<rparr>
           in (None, notifyStatusChange ident oldStatus StatusStopped None tm2)))"

text \<open>
  \<^verbatim>\<open>monitorTunnel\<close> polls the supervisor once a second until the handle of the tunnel is
  gone. This is what it does then.
\<close>

definition monitorTunnel_exit :: "Env \<Rightarrow> string \<Rightarrow> TunnelManager \<Rightarrow> TunnelManager" where
  "monitorTunnel_exit env ident tm =
    (case map_of (tunnels tm) ident of
       None \<Rightarrow> tm
     | Some tunnel \<Rightarrow>
        (let oldStatus = Status tunnel;
             tunnel' = (if Status tunnel = StatusRunning
                        then tunnel\<lparr> Status := StatusStopped, process := None, PID := 0, StartedAt := None \<rparr>
                        else tunnel);
             newStatus = Status tunnel';
             lastError = LastError tunnel';
             tm1 = tm\<lparr> tunnels := AList.update ident tunnel' (tunnels tm) \<rparr>;
             tm2 = tm1\<lparr> pidStore := snd (RemovePid env ident (pidStore tm1)) \<rparr>
         in if oldStatus \<noteq> newStatus then notifyStatusChange ident oldStatus newStatus lastError tm2
            else tm2))"

text \<open>
  \<^verbatim>\<open>StopAllTunnels\<close> first calls \<^verbatim>\<open>Cleanup\<close> of the supervisor, which disconnects the
  children concurrently and acts on the supervisor only. This is the critical section
  that follows it: one step per registry entry.
\<close>

definition stopEntry :: "Env \<Rightarrow> string \<times> Tunnel \<Rightarrow> TunnelManager \<Rightarrow> TunnelManager" where
  "stopEntry env e tm =
    (case e of (ident, tunnel) \<Rightarrow>
      if Status tunnel = StatusRunning then
        (let oldStatus = Status tunnel;
             tunnel' = tunnel\<lparr> Status := StatusStopped, process := None, PID := 0, StartedAt := None \<rparr>;
             tm1 = tm\<lparr> tunnels := AList.update ident tunnel' (tunnels tm) \<rparr>;
             tm2 = tm1\<lparr> pidStore := snd (RemovePid env ident (pidStore tm1)) \<rparr>
         in notifyStatusChange ident oldStatus StatusStopped None tm2)
      else tm)"

definition StopAllTunnels_update :: "Env \<Rightarrow> TunnelManager \<Rightarrow> TunnelManager" where
  "StopAllTunnels_update env tm = fold (stopEntry env) (tunnels tm) tm"

text \<open>
  \<^verbatim>\<open>GetTunnelsByProfile\<close>: clones of the matching tunnels, sorted by name. Go compares
  strings byte by byte, which is the lexicographic order on \<open>char list\<close>. \<^verbatim>\<open>sort.Slice\<close>
  does not promise an order among equal names; the model keeps the order of the loop there.
\<close>

definition GetTunnelsByProfile :: "TunnelManager \<Rightarrow> string \<Rightarrow> Tunnel list" where
  "GetTunnelsByProfile tm profileName =
    (let tunnels = fold (\<lambda>(k, tunnel) acc.
                           if Profile tunnel = profileName \<or> (profileName = ''default'' \<and> Profile tunnel = [])
                           then acc @ [Clone tunnel] else acc)
                        (tunnels tm) []
     in sort_key Name tunnels)"

text \<open>
  \<^verbatim>\<open>restoreTunnelStates\<close>: one step per ledger entry. The results of \<^verbatim>\<open>RemovePid\<close> are
  dropped by the source.
\<close>

definition restoreEntry :: "Env \<Rightarrow> string \<times> PidInfo \<Rightarrow> TunnelManager \<Rightarrow> TunnelManager" where
  "restoreEntry env e tm =
    (case e of (tunnelID, pidInfo) \<Rightarrow>
      (case map_of (tunnels tm) tunnelID of
         None \<Rightarrow> tm\<lparr> pidStore := snd (RemovePid env tunnelID (pidStore tm)) \<rparr>
       | Some tunnel \<Rightarrow>
          (case findProcessErr env (pid pidInfo) of
             Some err \<Rightarrow> tm\<lparr> pidStore := snd (RemovePid env tunnelID (pidStore tm)) \<rparr>
           | None \<Rightarrow>
              (case signal0Err env (pid pidInfo) of
                 Some err \<Rightarrow> tm\<lparr> pidStore := snd (RemovePid env tunnelID (pidStore tm)) \<rparr>
               | None \<Rightarrow>
                  (let startedAt = (case parseRFC3339 env (started pidInfo) of
                                      Some startTime \<Rightarrow> Some startTime
                                    | None \<Rightarrow> Some (now env));
                       tunnel' = tunnel\<lparr> Status := StatusRunning, PID := pid pidInfo,
                                         StartedAt := startedAt \<rparr>
                   in tm\<lparr> tunnels := AList.update tunnelID tunnel' (tunnels tm) \<rparr>)))))"

definition restoreTunnelStates :: "Env \<Rightarrow> TunnelManager \<Rightarrow> TunnelManager" where
  "restoreTunnelStates env tm =
    (case LoadPids env (pidStore tm) of
       (Inl err, f) \<Rightarrow> tm\<lparr> pidStore := f \<rparr>
     | (Inr pids, f) \<Rightarrow> fold (restoreEntry env) (Pids pids) (tm\<lparr> pidStore := f \<rparr>))"

text \<open>\<^verbatim>\<open>NewTunnelManager\<close>; the only option of the source sets the debug flag.\<close>

definition NewTunnelManager :: "Env \<Rightarrow> AppConfig filestate \<Rightarrow> FilePidStore \<Rightarrow> bool
    \<Rightarrow> TunnelManager" where
  "NewTunnelManager env cfg pids dbg =
    (let tm = \<lparr> tunnels = [], configStore = cfg, pidStore = pids,
                processManager = NewProcessManager dbg, debug = dbg,
                statusChanges = make_chan 100 \<rparr>;
         tm = loadTunnels tm
     in restoreTunnelStates env tm)"

subsection \<open>Concrete inputs\<close>

text \<open>
  The tunnel of the scenario in the specification, an environment in which every system
  call succeeds and two timestamps parse, and a registry that holds this one tunnel.
\<close>

definition web_tunnel :: Tunnel where
  "web_tunnel =
    \<lparr> ID = ''web'', Name = ''web'', Type = LocalForward, LocalHost = ''0.0.0.0'', LocalPort = 8080,
      RemoteHost = ''localhost'', RemotePort = 80, SSHHost = ''example.com'', ExtraArgs = [],
      AutoConnect = False, Profile = ''default'', Status = StatusStopped, PID = 0,
      StartedAt = None, LastError = None, process = None \<rparr>"

definition ok_env :: Env where
  "ok_env =
    \<lparr> now = 1000, nowRFC3339 = ''2026-01-01T00:00:00Z'',
      parseRFC3339 = (\<lambda>s. if s = ''2026-01-01T00:00:00Z'' then Some 1000
                          else if s = ''2025-12-31T23:59:00Z'' then Some 940 else None),
      findProcessErr = (\<lambda>p. None), signal0Err = (\<lambda>p. None), deliverErr = (\<lambda>t s. None),
      stdoutPipeErr = None, stderrPipeErr = None, startErr = (\<lambda>args. None), startPid = 4242,
      waitReturns = (\<lambda>p. True), pidWriteErr = None, pidRenameErr = None, pidRemoveErr = None,
      configWriteErr = None, configRenameErr = None \<rparr>"

definition web_manager :: TunnelManager where
  "web_manager =
    \<lparr> tunnels = [(''web'', web_tunnel)], configStore = NoFile,
      pidStore = \<lparr> content = NoFile, saving = [] \<rparr>,
      processManager = NewProcessManager False, debug = False, statusChanges = make_chan 100 \<rparr>"

text \<open>The bound on the event queue: the channel has capacity 100 and holds at most 100 events.\<close>

definition queue_ok :: "TunnelManager \<Rightarrow> bool" where
  "queue_ok tm = (capacity (statusChanges tm) = 100 \<and> length (buffer (statusChanges tm)) \<le> 100)"

text \<open>A registry whose event queue is full, and an environment in which \<^verbatim>\<open>ssh\<close> cannot be started.\<close>

definition full_manager :: TunnelManager where
  "full_manager =
    web_manager\<lparr> statusChanges :=
      \<lparr> capacity = 100,
        buffer = replicate 100 \<lparr> TunnelID = ''web'', OldStatus = StatusStopped,
                                 NewStatus = StatusConnecting, Error = None \<rparr> \<rparr> \<rparr>"

definition no_ssh_env :: Env where
  "no_ssh_env = ok_env\<lparr> startErr := (\<lambda>args. Some (OSError ''executable file not found'')) \<rparr>"

text \<open>The error of \<^verbatim>\<open>SaveConfig\<close> in an environment, if it fails there; a disk that is full; a second tunnel.\<close>

definition configSaveErr :: "Env \<Rightarrow> error option" where
  "configSaveErr env =
    (case configWriteErr env of
       Some err \<Rightarrow> Some (Wrap ''failed to write config file'' err)
     | None \<Rightarrow>
        (case configRenameErr env of
           Some err \<Rightarrow> Some (Wrap ''failed to save config file'' err)
         | None \<Rightarrow> None))"

definition disk_full_env :: Env where
  "disk_full_env = ok_env\<lparr> configWriteErr := Some (OSError ''no space left on device'') \<rparr>"

definition api_tunnel :: Tunnel where
  "api_tunnel = web_tunnel\<lparr> ID := ''api'', Name := ''api'', LocalPort := 9090 \<rparr>"

text \<open>The number of children the supervisor has started for a tunnel identifier.\<close>

fun spawned_for :: "string \<Rightarrow> os_action list \<Rightarrow> nat" where
  "spawned_for ident [] = 0"
| "spawned_for ident (Exec i args p # as) = (if i = ident then 1 else 0) + spawned_for ident as"
| "spawned_for ident (a # as) = spawned_for ident as"

text \<open>
  The registry after the first critical section of a \<^verbatim>\<open>StartTunnel\<close> for "web": the tunnel
  is marked as connecting and \<^verbatim>\<open>Connect\<close> has not been called yet.
\<close>

definition connecting_manager :: TunnelManager where
  "connecting_manager =
    (case StartTunnel_begin ''web'' web_manager of
       Inr (tunnel, tm) \<Rightarrow> tm
     | Inl err \<Rightarrow> web_manager)"


text \<open>
  Two overlapping calls of \<^verbatim>\<open>StartTunnel\<close> for "web": the first caller leaves its first
  critical section, the second caller runs from start to end, then the first caller goes
  on with \<^verbatim>\<open>Connect\<close>.
\<close>

definition overlapping_starts :: TunnelManager where
  "overlapping_starts =
    (case StartTunnel_begin ''web'' web_manager of
       Inr (tunnel, tm1) \<Rightarrow>
         snd (StartTunnel_connect ok_env ''web'' tunnel
               (snd (StartTunnel (ok_env\<lparr> startPid := 4243 \<rparr>) ''web'' tm1)))
     | Inl err \<Rightarrow> web_manager)"

definition running_manager :: TunnelManager where
  "running_manager =
    web_manager\<lparr> tunnels := [(''web'', web_tunnel\<lparr> Status := StatusRunning, PID := 4242 \<rparr>)] \<rparr>"

text \<open>
  A supervisor that tracks one child for "web"; an environment in which the child ignores
  SIGTERM for more than five seconds; one in which no signal can be delivered.
\<close>

definition tracking_pm :: ProcessManager where
  "tracking_pm =
    \<lparr> ProcessManager.debug = False,
      processes = [(''web'', \<lparr> Cmd = 4242, PID = 4242, StartedAt = 1000 \<rparr>)],
      effects = [] \<rparr>"

definition stubborn_env :: Env where
  "stubborn_env = ok_env\<lparr> waitReturns := (\<lambda>p. False) \<rparr>"

definition gone_env :: Env where
  "gone_env = ok_env\<lparr> deliverErr := (\<lambda>t s. Some (OSError ''no such process'')) \<rparr>"

text \<open>
  Notions used to state properties of the ledger: an entry whose process is running, the
  entries a file holds, \<^verbatim>\<open>SavePids\<close> applied to what \<^verbatim>\<open>LoadPids\<close> returned, and an
  environment in which every write, rename and removal of the PID file succeeds.
\<close>

definition alive :: "Env \<Rightarrow> string \<times> PidInfo \<Rightarrow> bool" where
  "alive env e = isProcessRunning env (pid (snd e))"

definition ledger :: "(string \<times> PidInfo) list filestate \<Rightarrow> (string \<times> PidInfo) list" where
  "ledger f = (case f of Stored pids \<Rightarrow> pids | _ \<Rightarrow> [])"

definition save_after_load :: "Env \<Rightarrow> FilePidStore \<Rightarrow> error option \<times> FilePidStore" where
  "save_after_load env fps =
    (case LoadPids env fps of
       (Inl err, fps1) \<Rightarrow> (Some err, fps1)
     | (Inr pidData, fps1) \<Rightarrow> SavePids env (Some pidData) fps1)"

definition pid_io_ok :: "Env \<Rightarrow> bool" where
  "pid_io_ok env = (pidWriteErr env = None \<and> pidRenameErr env = None \<and> pidRemoveErr env = None)"

text \<open>A ledger of three entries, and an environment in which only process 4242 is running.\<close>

definition three_pids :: "(string \<times> PidInfo) list" where
  "three_pids =
    [(''web'', \<lparr> pid = 4242, started = ''2025-12-31T23:59:00Z'', tunnelId = ''web'' \<rparr>),
     (''db'', \<lparr> pid = 4243, started = ''2026-01-01T00:00:01Z'', tunnelId = ''db'' \<rparr>),
     (''api'', \<lparr> pid = 4244, started = ''2026-01-01T00:00:02Z'', tunnelId = ''api'' \<rparr>)]"

definition only_4242_env :: Env where
  "only_4242_env =
    ok_env\<lparr> signal0Err := (\<lambda>p. if p = 4242 then None else Some (OSError ''no such process'')) \<rparr>"

text \<open>A PID file that does not exist or holds a map (distinct identifiers).\<close>

definition wf_file :: "(string \<times> PidInfo) list filestate \<Rightarrow> bool" where
  "wf_file f = (case f of NoFile \<Rightarrow> True | Stored pids \<Rightarrow> distinct (map fst pids) | _ \<Rightarrow> False)"

text \<open>The registry of "web" next to a ledger that also lists "db" and "api", for which there is no tunnel.\<close>

definition restarted_manager :: TunnelManager where
  "restarted_manager = web_manager\<lparr> pidStore := \<lparr> content = Stored three_pids, saving = [] \<rparr> \<rparr>"

text \<open>The test of the loop in \<^verbatim>\<open>GetTunnelsByProfile\<close>.\<close>

definition in_profile :: "string \<Rightarrow> Tunnel \<Rightarrow> bool" where
  "in_profile profileName tunnel =
    (Profile tunnel = profileName \<or> (profileName = ''default'' \<and> Profile tunnel = []))"

text \<open>A registry with a second tunnel, "db", in the profile "prod".\<close>

definition db_tunnel :: Tunnel where
  "db_tunnel = web_tunnel\<lparr> ID := ''db'', Name := ''db'', LocalPort := 5432, RemotePort := 5432,
                            Profile := ''prod'' \<rparr>"

definition prod_manager :: TunnelManager where
  "prod_manager = web_manager\<lparr> tunnels := [(''web'', web_tunnel), (''db'', db_tunnel)] \<rparr>"


text \<open>A remote forward and a dynamic forward, for the argument lists.\<close>

definition remote_tunnel :: Tunnel where
  "remote_tunnel = web_tunnel\<lparr> ID := ''hook'', Name := ''hook'', Type := RemoteForward,
                                LocalPort := 3000, RemoteHost := [], RemotePort := 9000,
                                ExtraArgs := [''-p'', ''2222''] \<rparr>"

definition dynamic_tunnel :: Tunnel where
  "dynamic_tunnel = web_tunnel\<lparr> ID := ''socks'', Name := ''socks'', Type := DynamicForward,
                                 LocalHost := ''127.0.0.1'', LocalPort := 1080,
                                 RemoteHost := [], RemotePort := 0 \<rparr>"

text \<open>
  What a full rewrite of the configuration store holds for a registry: version "1.0", one
  stored tunnel per registry entry, in the order of the registry and with the fields of
  the entry, and one profile per profile name in use, "default" always among them, each
  described as "<name> profile".
\<close>

definition written_config :: "(string \<times> Tunnel) list \<Rightarrow> AppConfig \<Rightarrow> bool" where
  "written_config registry c =
    (Version c = ''1.0''
     \<and> Tunnels c =
         map (\<lambda>(k, t). \<lparr> TunnelConfig.ID = ID t, TunnelConfig.Name = Name t, Host = SSHHost t,
                          TunnelConfig.LocalPort = LocalPort t, TunnelConfig.RemotePort = RemotePort t,
                          Mode = Type t, TunnelConfig.Profile = Profile t, Options = ExtraArgs t,
                          TunnelConfig.AutoConnect = AutoConnect t \<rparr>) registry
     \<and> distinct (map ProfileInfo.Name (Profiles c))
     \<and> set (map ProfileInfo.Name (Profiles c)) =
         set (''default'' # filter (\<lambda>n. n \<noteq> []) (map (\<lambda>(k, t). Profile t) registry))
     \<and> list_all (\<lambda>p. Description p = ProfileInfo.Name p @ '' profile''
                      \<and> TunnelIDs p = [] \<and> \<not> ProfileInfo.AutoConnect p) (Profiles c))"

text \<open>A store whose file holds the three entries, and an environment in which no process is running.\<close>

definition three_store :: FilePidStore where
  "three_store = \<lparr> content = Stored three_pids, saving = [] \<rparr>"

definition all_dead_env :: Env where
  "all_dead_env = ok_env\<lparr> signal0Err := (\<lambda>p. Some (OSError ''no such process'')) \<rparr>"

text \<open>An environment in which the process of "api", 4244, is gone and the two others are running.\<close>

definition api_dead_env :: Env where
  "api_dead_env =
    ok_env\<lparr> signal0Err := (\<lambda>p. if p = 4244 then Some (OSError ''no such process'') else None) \<rparr>"

text \<open>
  The rule of the specification for one event: dropped when the queue is full, appended
  otherwise. This definition follows the words of the specification, not the source.
\<close>

definition offered :: "'a \<Rightarrow> 'a chan \<Rightarrow> 'a chan" where
  "offered ev c = (if capacity c \<le> length (buffer c) then c else c\<lparr> buffer := buffer c @ [ev] \<rparr>)"


section \<open>Properties\<close>

subsection \<open>Validation\<close>

lemma Validate_ok_type:
  "fst (Validate t) = None \<Longrightarrow> Type t = LocalForward \<or> Type t = RemoteForward \<or> Type t = DynamicForward"
  by (auto simp: Validate_def split: if_splits)

text \<open>
  Claim C9. \<^verbatim>\<open>Validate\<close> writes to its argument: on a local-forward tunnel with a name, an
  SSH host, both ports in range and an empty \<^verbatim>\<open>RemoteHost\<close> it succeeds and leaves the
  tunnel with \<^verbatim>\<open>RemoteHost\<close> set to "127.0.0.1", every other field as it was; the tunnel
  after the call differs from the tunnel before it.
\<close>

theorem Validate_sets_RemoteHost:
  assumes "Type t = LocalForward" "Name t \<noteq> []" "SSHHost t \<noteq> []"
    "0 < LocalPort t" "LocalPort t \<le> 65535" "0 < RemotePort t" "RemotePort t \<le> 65535"
    "RemoteHost t = []"
  shows "Validate t = (None, t\<lparr>RemoteHost := ''127.0.0.1''\<rparr>) \<and> snd (Validate t) \<noteq> t"
proof -
  have v: "Validate t = (None, t\<lparr>RemoteHost := ''127.0.0.1''\<rparr>)"
    using assms by (simp add: Validate_def)
  have "snd (Validate t) \<noteq> t"
  proof
    assume "snd (Validate t) = t"
    then have "RemoteHost (snd (Validate t)) = RemoteHost t" by simp
    then show False using assms(8) by (simp add: v)
  qed
  then show ?thesis using v by simp
qed

theorem Validate_sets_RemoteHost_witness:
  "Validate (web_tunnel\<lparr>RemoteHost := []\<rparr>) = (None, web_tunnel\<lparr>RemoteHost := ''127.0.0.1''\<rparr>)
   \<and> snd (Validate (web_tunnel\<lparr>RemoteHost := []\<rparr>)) \<noteq> web_tunnel\<lparr>RemoteHost := []\<rparr>"
  using Validate_sets_RemoteHost [of "web_tunnel\<lparr>RemoteHost := []\<rparr>"]
  by (simp add: web_tunnel_def)

lemma Validate_ID: "ID (snd (Validate t)) = ID t"
  by (simp add: Validate_def)

subsection \<open>The ssh invocation\<close>

lemma fmt_d_8080: "fmt_d 8080 = ''8080''"
  by (simp add: fmt_d_def fmt_nat.simps digit_def)

lemma fmt_d_80: "fmt_d 80 = ''80''"
  by (simp add: fmt_d_def fmt_nat.simps digit_def)

lemma fmt_d_3000: "fmt_d 3000 = ''3000''"
  by (simp add: fmt_d_def fmt_nat.simps digit_def)

lemma fmt_d_9000: "fmt_d 9000 = ''9000''"
  by (simp add: fmt_d_def fmt_nat.simps digit_def)

lemma fmt_d_1080: "fmt_d 1080 = ''1080''"
  by (simp add: fmt_d_def fmt_nat.simps digit_def)

text \<open>
  \<^verbatim>\<open>%d\<close> prints the decimal digits of a number, most significant first: reading the digits
  back gives the number, and there is no leading zero.
\<close>

lemma below_ten: "(d::nat) < 10 \<Longrightarrow> d \<in> {0, 1, 2, 3, 4, 5, 6, 7, 8, 9}"
  by (simp, arith)

lemma digit_value:
  assumes "d < 10"
  shows "of_char (digit d) = (48 + d :: nat)"
  using below_ten [OF assms] by (auto simp: digit_def)

lemma fmt_nat_value: "foldl (\<lambda>a c. 10 * a + (of_char c - 48)) 0 (fmt_nat n) = n"
proof (induction n rule: fmt_nat.induct)
  case (1 n)
  show ?case
  proof (cases "n < 10")
    case True
    then show ?thesis
      by (subst fmt_nat.simps) (simp add: digit_value)
  next
    case False
    have m: "n mod 10 < 10" by simp
    show ?thesis
      using "1" False by (subst fmt_nat.simps) (simp add: digit_value [OF m])
  qed
qed

lemma fmt_nat_no_leading_zero: "0 < n \<Longrightarrow> hd (fmt_nat n) \<noteq> CHR ''0''"
proof (induction n rule: fmt_nat.induct)
  case (1 n)
  show ?case
  proof (cases "n < 10")
    case True
    then have "n \<in> {0, 1, 2, 3, 4, 5, 6, 7, 8, 9}"
      by (rule below_ten)
    then show ?thesis
      using "1.prems" True by (subst fmt_nat.simps) (auto simp: digit_def)
  next
    case False
    then have p: "0 < n div 10" by simp
    have ne: "fmt_nat (n div 10) \<noteq> []"
      by (subst fmt_nat.simps) simp
    show ?thesis
      using "1.IH" [OF False p] False ne by (subst fmt_nat.simps) simp
  qed
qed

text \<open>
  Claim C3. A tunnel that passes validation has one of the three forwarding types, and its
  argument list is, in this order: the forwarding flag with its argument (\<^verbatim>\<open>-L\<close> with
  "bindHost:bindPort:destHost:destPort", \<^verbatim>\<open>-R\<close> with "remotePort:localHost:localPort" where
  an empty or wildcard local host becomes 127.0.0.1, \<^verbatim>\<open>-D\<close> with "bindHost:bindPort"), the
  fourteen fixed stability arguments, the extra arguments as they are, the flag \<^verbatim>\<open>-v\<close>
  when the supervisor runs in debug mode, and the SSH host, which is the last argument.
\<close>

theorem buildSSHArgs_order:
  assumes "fst (Validate t) = None"
  shows "(Type t = LocalForward \<or> Type t = RemoteForward \<or> Type t = DynamicForward)
       \<and> buildSSHArgs dbg t =
           (if Type t = LocalForward then
              [''-L'', LocalHost t @ '':'' @ fmt_d (LocalPort t) @ '':'' @ RemoteHost t
                        @ '':'' @ fmt_d (RemotePort t)]
            else if Type t = RemoteForward then
              [''-R'', fmt_d (RemotePort t) @ '':''
                        @ (if LocalHost t = [] \<or> LocalHost t = ''0.0.0.0'' then ''127.0.0.1''
                           else LocalHost t)
                        @ '':'' @ fmt_d (LocalPort t)]
            else [''-D'', LocalHost t @ '':'' @ fmt_d (LocalPort t)])
           @ [''-N'', ''-T'',
              ''-o'', ''ServerAliveInterval=60'',
              ''-o'', ''ServerAliveCountMax=3'',
              ''-o'', ''ExitOnForwardFailure=yes'',
              ''-o'', ''StrictHostKeyChecking=accept-new'',
              ''-o'', ''ControlMaster=no'',
              ''-o'', ''ControlPath=none'']
           @ ExtraArgs t @ (if dbg then [''-v''] else []) @ [SSHHost t]
       \<and> last (buildSSHArgs dbg t) = SSHHost t"
proof -
  have ty: "Type t = LocalForward \<or> Type t = RemoteForward \<or> Type t = DynamicForward"
    using assms by (rule Validate_ok_type)
  have ne: "LocalForward \<noteq> RemoteForward" "LocalForward \<noteq> DynamicForward" "RemoteForward \<noteq> DynamicForward"
    by (simp_all add: LocalForward_def RemoteForward_def DynamicForward_def)
  have args: "buildSSHArgs dbg t =
      forwardArgs t @ stabilityOptions @ ExtraArgs t @ (if dbg then [''-v''] else []) @ [SSHHost t]"
    by (simp add: buildSSHArgs_def Let_def)
  have l: "last (buildSSHArgs dbg t) = SSHHost t"
    by (simp add: args)
  from ty show ?thesis
  proof (elim disjE)
    assume "Type t = LocalForward"
    then show ?thesis
      using l by (simp add: args forwardArgs_def stabilityOptions_def)
  next
    assume "Type t = RemoteForward"
    then show ?thesis
      using l ne by (simp add: args forwardArgs_def stabilityOptions_def Let_def)
  next
    assume "Type t = DynamicForward"
    then show ?thesis
      using l ne by (simp add: args forwardArgs_def stabilityOptions_def)
  qed
qed

theorem buildSSHArgs_order_witness:
  "fst (Validate web_tunnel) = None
 \<and> buildSSHArgs False web_tunnel =
     [''-L'', ''0.0.0.0:8080:localhost:80'', ''-N'', ''-T'',
      ''-o'', ''ServerAliveInterval=60'', ''-o'', ''ServerAliveCountMax=3'',
      ''-o'', ''ExitOnForwardFailure=yes'', ''-o'', ''StrictHostKeyChecking=accept-new'',
      ''-o'', ''ControlMaster=no'', ''-o'', ''ControlPath=none'', ''example.com'']
 \<and> fst (Validate remote_tunnel) = None
 \<and> buildSSHArgs True remote_tunnel =
     [''-R'', ''9000:127.0.0.1:3000'', ''-N'', ''-T'',
      ''-o'', ''ServerAliveInterval=60'', ''-o'', ''ServerAliveCountMax=3'',
      ''-o'', ''ExitOnForwardFailure=yes'', ''-o'', ''StrictHostKeyChecking=accept-new'',
      ''-o'', ''ControlMaster=no'', ''-o'', ''ControlPath=none'',
      ''-p'', ''2222'', ''-v'', ''example.com'']
 \<and> fst (Validate dynamic_tunnel) = None
 \<and> buildSSHArgs False dynamic_tunnel =
     [''-D'', ''127.0.0.1:1080'', ''-N'', ''-T'',
      ''-o'', ''ServerAliveInterval=60'', ''-o'', ''ServerAliveCountMax=3'',
      ''-o'', ''ExitOnForwardFailure=yes'', ''-o'', ''StrictHostKeyChecking=accept-new'',
      ''-o'', ''ControlMaster=no'', ''-o'', ''ControlPath=none'', ''example.com'']
 \<and> last (buildSSHArgs False web_tunnel) = ''example.com''"
proof -
  have vw: "fst (Validate web_tunnel) = None"
    by (simp add: Validate_def web_tunnel_def LocalForward_def)
  have vr: "fst (Validate remote_tunnel) = None"
    by (simp add: Validate_def remote_tunnel_def web_tunnel_def LocalForward_def RemoteForward_def)
  have vd: "fst (Validate dynamic_tunnel) = None"
    by (simp add: Validate_def dynamic_tunnel_def web_tunnel_def LocalForward_def RemoteForward_def
          DynamicForward_def)
  have w: "buildSSHArgs False web_tunnel =
     [''-L'', ''0.0.0.0:8080:localhost:80'', ''-N'', ''-T'',
      ''-o'', ''ServerAliveInterval=60'', ''-o'', ''ServerAliveCountMax=3'',
      ''-o'', ''ExitOnForwardFailure=yes'', ''-o'', ''StrictHostKeyChecking=accept-new'',
      ''-o'', ''ControlMaster=no'', ''-o'', ''ControlPath=none'', ''example.com'']
    \<and> last (buildSSHArgs False web_tunnel) = ''example.com''"
    using buildSSHArgs_order [OF vw, of False]
    by (simp add: web_tunnel_def fmt_d_8080 fmt_d_80)
  have r: "buildSSHArgs True remote_tunnel =
     [''-R'', ''9000:127.0.0.1:3000'', ''-N'', ''-T'',
      ''-o'', ''ServerAliveInterval=60'', ''-o'', ''ServerAliveCountMax=3'',
      ''-o'', ''ExitOnForwardFailure=yes'', ''-o'', ''StrictHostKeyChecking=accept-new'',
      ''-o'', ''ControlMaster=no'', ''-o'', ''ControlPath=none'',
      ''-p'', ''2222'', ''-v'', ''example.com'']"
    using buildSSHArgs_order [OF vr, of True]
    by (simp add: remote_tunnel_def web_tunnel_def fmt_d_3000 fmt_d_9000
          LocalForward_def RemoteForward_def)
  have d: "buildSSHArgs False dynamic_tunnel =
     [''-D'', ''127.0.0.1:1080'', ''-N'', ''-T'',
      ''-o'', ''ServerAliveInterval=60'', ''-o'', ''ServerAliveCountMax=3'',
      ''-o'', ''ExitOnForwardFailure=yes'', ''-o'', ''StrictHostKeyChecking=accept-new'',
      ''-o'', ''ControlMaster=no'', ''-o'', ''ControlPath=none'', ''example.com'']"
    using buildSSHArgs_order [OF vd, of False]
    by (simp add: dynamic_tunnel_def web_tunnel_def fmt_d_1080
          LocalForward_def RemoteForward_def DynamicForward_def)
  from vw vr vd w r d show ?thesis by blast
qed

text \<open>The scenario of the specification, for every bind host \<open>h\<close>.\<close>

lemma buildSSHArgs_scenario:
  "buildSSHArgs False (web_tunnel\<lparr>LocalHost := h\<rparr>) =
     [''-L'', h @ '':8080:localhost:80''] @ stabilityOptions @ [''example.com'']"
  by (simp add: buildSSHArgs_def forwardArgs_def Let_def web_tunnel_def fmt_d_8080 fmt_d_80)

subsection \<open>Starting a tunnel\<close>

lemma Connect_failure_keeps_supervisor:
  "Connect env t pm = (Inl err, t', pm') \<Longrightarrow> pm' = pm"
  by (auto simp: Connect_def Let_def split: prod.splits option.splits if_splits)

lemma pidStore_notify: "pidStore (notifyStatusChange i old new err tm) = pidStore tm"
  by (simp add: notifyStatusChange_def)

lemma tunnels_notify: "tunnels (notifyStatusChange i old new err tm) = tunnels tm"
  by (simp add: notifyStatusChange_def)

lemma processManager_notify: "processManager (notifyStatusChange i old new err tm) = processManager tm"
  by (simp add: notifyStatusChange_def)

lemma StartTunnel_begin_Inr:
  assumes "map_of (tunnels tm) ident = Some t" and "Status t \<noteq> StatusRunning"
  shows "StartTunnel_begin ident tm =
           Inr (t\<lparr> Status := StatusConnecting \<rparr>,
                notifyStatusChange ident (Status t) StatusConnecting None
                  (tm\<lparr> tunnels := AList.update ident (t\<lparr> Status := StatusConnecting \<rparr>) (tunnels tm) \<rparr>))"
  using assms by (simp add: StartTunnel_begin_def Let_def)

text \<open>
  Claim C8. When \<^verbatim>\<open>Connect\<close> fails for a tunnel that is not running, \<^verbatim>\<open>StartTunnel\<close> returns
  the wrapped cause, the tunnel is in status \<^verbatim>\<open>error\<close> with the cause in \<^verbatim>\<open>LastError\<close>, the
  PID ledger is the same file as before, and the supervisor has registered nothing.
\<close>

theorem StartTunnel_failure_keeps_ledger:
  assumes "map_of (tunnels tm) ident = Some t" and "Status t \<noteq> StatusRunning"
    and "fst (Connect env (t\<lparr> Status := StatusConnecting \<rparr>) (processManager tm)) = Inl cause"
  shows "fst (StartTunnel env ident tm) = Some (Wrap ''failed to start tunnel'' cause)
       \<and> (\<exists>u. map_of (tunnels (snd (StartTunnel env ident tm))) ident = Some u
                \<and> Status u = StatusError \<and> LastError u = Some cause)
       \<and> pidStore (snd (StartTunnel env ident tm)) = pidStore tm
       \<and> processManager (snd (StartTunnel env ident tm)) = processManager tm"
proof -
  define t1 where "t1 = t\<lparr> Status := StatusConnecting \<rparr>"
  define tm1 where "tm1 = notifyStatusChange ident (Status t) StatusConnecting None
                  (tm\<lparr> tunnels := AList.update ident t1 (tunnels tm) \<rparr>)"
  have b: "StartTunnel_begin ident tm = Inr (t1, tm1)"
    using StartTunnel_begin_Inr [OF assms(1,2)] by (simp add: t1_def tm1_def)
  have pm1: "processManager tm1 = processManager tm"
    by (simp add: tm1_def processManager_notify)
  have ps1: "pidStore tm1 = pidStore tm"
    by (simp add: tm1_def pidStore_notify)
  obtain t' pm' where c: "Connect env t1 (processManager tm1) = (Inl cause, t', pm')"
    using assms(3) by (cases "Connect env t1 (processManager tm)") (auto simp: t1_def pm1)
  have pm': "pm' = processManager tm"
    using Connect_failure_keeps_supervisor [OF c] pm1 by simp
  have s: "StartTunnel env ident tm =
      (Some (Wrap ''failed to start tunnel'' cause),
       notifyStatusChange ident StatusConnecting StatusError (Some cause)
         (tm1\<lparr> processManager := pm',
               tunnels := AList.update ident (t'\<lparr> Status := StatusError, LastError := Some cause \<rparr>) (tunnels tm1) \<rparr>))"
    by (simp add: StartTunnel_def b StartTunnel_connect_def c Let_def)
  show ?thesis
    by (simp add: s pidStore_notify tunnels_notify processManager_notify ps1 pm' update_conv')
qed

lemma Connect_no_ssh:
  "fst (Connect no_ssh_env (web_tunnel\<lparr> Status := StatusConnecting \<rparr>) (processManager web_manager))
     = Inl (Wrap ''failed to start SSH process'' (OSError ''executable file not found''))"
  by (simp add: Connect_def Validate_def web_tunnel_def LocalForward_def Let_def no_ssh_env_def
        ok_env_def web_manager_def NewProcessManager_def)

theorem StartTunnel_failure_keeps_ledger_witness:
  "map_of (tunnels web_manager) ''web'' = Some web_tunnel
   \<and> Status web_tunnel \<noteq> StatusRunning
   \<and> fst (StartTunnel no_ssh_env ''web'' web_manager)
       = Some (Wrap ''failed to start tunnel''
                (Wrap ''failed to start SSH process'' (OSError ''executable file not found'')))
   \<and> pidStore (snd (StartTunnel no_ssh_env ''web'' web_manager)) = \<lparr> content = NoFile, saving = [] \<rparr>"
proof -
  have a: "map_of (tunnels web_manager) ''web'' = Some web_tunnel"
    by (simp add: web_manager_def)
  have b: "Status web_tunnel \<noteq> StatusRunning"
    by (simp add: web_tunnel_def StatusStopped_def StatusRunning_def)
  have p: "pidStore web_manager = \<lparr> content = NoFile, saving = [] \<rparr>"
    by (simp add: web_manager_def)
  show ?thesis
    using StartTunnel_failure_keeps_ledger [OF a b Connect_no_ssh] a b p by simp
qed

subsection \<open>Starting a tunnel twice\<close>

lemma StartTunnel_running:
  assumes "map_of (tunnels tm) ident = Some t" "Status t = StatusRunning"
  shows "StartTunnel env ident tm = (Some AlreadyRunning, tm)"
  using assms by (simp add: StartTunnel_def StartTunnel_begin_def)

lemma Connect_success:
  assumes "Connect env t pm = (Inr pe, t', pm')"
  shows "map_of (processes pm') (ID t) = Some \<lparr> Cmd = startPid env, PID = startPid env, StartedAt = now env \<rparr>
       \<and> effects pm' = effects pm @ [Exec (ID t) (buildSSHArgs (ProcessManager.debug pm) t') (startPid env)]
       \<and> PidEntry.PID pe = startPid env \<and> ID t' = ID t"
proof -
  obtain r where v: "Validate t = (r, t')"
    using assms by (cases "Validate t") (auto simp: Connect_def Let_def split: option.splits if_splits)
  have i: "ID t' = ID t" using Validate_ID [of t] v by simp
  show ?thesis using assms
    by (auto simp: Connect_def Let_def v i update_conv' NewPidEntry_def split: option.splits if_splits)
qed

lemma spawned_for_append: "spawned_for i (xs @ ys) = spawned_for i xs + spawned_for i ys"
  by (induction i xs rule: spawned_for.induct) simp_all

lemma StartTunnel_success:
  assumes "fst (StartTunnel env ident tm) = None"
  shows "\<exists>t t' pe pm'. map_of (tunnels tm) ident = Some t \<and> Status t \<noteq> StatusRunning
      \<and> Connect env (t\<lparr> Status := StatusConnecting \<rparr>) (processManager tm) = (Inr pe, t', pm')
      \<and> processManager (snd (StartTunnel env ident tm)) = pm'
      \<and> (\<exists>u. map_of (tunnels (snd (StartTunnel env ident tm))) ident = Some u \<and> Status u = StatusRunning
             \<and> PID u = PidEntry.PID pe)"
proof -
  obtain t where t: "map_of (tunnels tm) ident = Some t" and nr: "Status t \<noteq> StatusRunning"
    using assms by (auto simp: StartTunnel_def StartTunnel_begin_def split: option.splits if_splits)
  define t1 where "t1 = t\<lparr> Status := StatusConnecting \<rparr>"
  define tm1 where "tm1 = notifyStatusChange ident (Status t) StatusConnecting None
                  (tm\<lparr> tunnels := AList.update ident t1 (tunnels tm) \<rparr>)"
  have b: "StartTunnel_begin ident tm = Inr (t1, tm1)"
    using StartTunnel_begin_Inr [OF t nr] by (simp add: t1_def tm1_def)
  have pm1: "processManager tm1 = processManager tm"
    by (simp add: tm1_def processManager_notify)
  obtain r t' pm' where c: "Connect env t1 (processManager tm) = (r, t', pm')"
    by (cases "Connect env t1 (processManager tm)")
  obtain pe where r: "r = Inr pe"
    using assms by (cases r) (auto simp: StartTunnel_def b StartTunnel_connect_def c pm1 Let_def)
  have "processManager (snd (StartTunnel env ident tm)) = pm'
      \<and> (\<exists>u. map_of (tunnels (snd (StartTunnel env ident tm))) ident = Some u \<and> Status u = StatusRunning
             \<and> PID u = PidEntry.PID pe)"
    by (simp add: StartTunnel_def b StartTunnel_connect_def c r pm1 Let_def processManager_notify
          tunnels_notify update_conv' split: option.splits)
  then show ?thesis using t nr c r t1_def by blast
qed

text \<open>
  Claim C1, as the code has it. \<^verbatim>\<open>StartTunnel\<close> refuses a tunnel whose status is \<^verbatim>\<open>running\<close>
  with "tunnel is already running" and changes nothing. When a \<^verbatim>\<open>StartTunnel\<close> has succeeded
  (on a registry entry filed under the tunnel's own identifier), a second \<^verbatim>\<open>StartTunnel\<close>
  for the same identifier is refused in this way, the supervisor's table holds the handle
  of the child started by the first call, and the two calls together have started exactly
  one child for the identifier.
\<close>

theorem StartTunnel_rejects_running:
  "(map_of (tunnels tm) ident = Some t \<and> Status t = StatusRunning
      \<longrightarrow> StartTunnel env ident tm = (Some AlreadyRunning, tm))
 \<and> (fst (StartTunnel env ident tm) = None \<and> (\<forall>t. map_of (tunnels tm) ident = Some t \<longrightarrow> ID t = ident)
      \<longrightarrow> StartTunnel env' ident (snd (StartTunnel env ident tm))
            = (Some AlreadyRunning, snd (StartTunnel env ident tm))
        \<and> (\<exists>h. map_of (processes (processManager (snd (StartTunnel env ident tm)))) ident = Some h
                 \<and> ProcessInfo.PID h = startPid env)
        \<and> spawned_for ident (effects (processManager
              (snd (StartTunnel env' ident (snd (StartTunnel env ident tm))))))
            = spawned_for ident (effects (processManager tm)) + 1)"
proof -
  have a: "map_of (tunnels tm) ident = Some t \<and> Status t = StatusRunning
      \<longrightarrow> StartTunnel env ident tm = (Some AlreadyRunning, tm)"
    using StartTunnel_running by blast
  have b: "StartTunnel env' ident (snd (StartTunnel env ident tm))
            = (Some AlreadyRunning, snd (StartTunnel env ident tm))
        \<and> (\<exists>h. map_of (processes (processManager (snd (StartTunnel env ident tm)))) ident = Some h
                 \<and> ProcessInfo.PID h = startPid env)
        \<and> spawned_for ident (effects (processManager
              (snd (StartTunnel env' ident (snd (StartTunnel env ident tm))))))
            = spawned_for ident (effects (processManager tm)) + 1"
    if ok: "fst (StartTunnel env ident tm) = None"
      and key: "\<forall>t. map_of (tunnels tm) ident = Some t \<longrightarrow> ID t = ident"
  proof -
    obtain t0 t' pe pm' u where t0: "map_of (tunnels tm) ident = Some t0"
      and c: "Connect env (t0\<lparr> Status := StatusConnecting \<rparr>) (processManager tm) = (Inr pe, t', pm')"
      and pm: "processManager (snd (StartTunnel env ident tm)) = pm'"
      and u: "map_of (tunnels (snd (StartTunnel env ident tm))) ident = Some u" "Status u = StatusRunning"
      using StartTunnel_success [OF ok] by blast
    have i: "ID (t0\<lparr> Status := StatusConnecting \<rparr>) = ident" using key t0 by simp
    have second: "StartTunnel env' ident (snd (StartTunnel env ident tm))
            = (Some AlreadyRunning, snd (StartTunnel env ident tm))"
      using StartTunnel_running [OF u] .
    from Connect_success [OF c] i
    have h: "map_of (processes pm') ident = Some \<lparr> Cmd = startPid env, PID = startPid env, StartedAt = now env \<rparr>"
      and e: "effects pm' = effects (processManager tm) @
                [Exec ident (buildSSHArgs (ProcessManager.debug (processManager tm)) t') (startPid env)]"
      by simp_all
    show ?thesis
      by (simp add: second pm h e spawned_for_append)
  qed
  from a b show ?thesis by blast
qed


lemmas start_unfold =
  StartTunnel_def StartTunnel_begin_def StartTunnel_connect_def Connect_def Validate_def
  GetProcessInfo_def AddPid_def LoadPids_def SavePids_def shareMap_def NewPidInfo_def NewPidEntry_def
  notifyStatusChange_def trySend_def make_chan_def NewProcessManager_def Let_def
  web_manager_def web_tunnel_def ok_env_def LocalForward_def
  StatusStopped_def StatusRunning_def StatusConnecting_def StatusError_def

theorem StartTunnel_rejects_running_witness:
  "map_of (tunnels running_manager) ''web'' = Some (web_tunnel\<lparr> Status := StatusRunning, PID := 4242 \<rparr>)
 \<and> StartTunnel ok_env ''web'' running_manager = (Some AlreadyRunning, running_manager)
 \<and> fst (StartTunnel ok_env ''web'' web_manager) = None
 \<and> StartTunnel ok_env ''web'' (snd (StartTunnel ok_env ''web'' web_manager))
     = (Some AlreadyRunning, snd (StartTunnel ok_env ''web'' web_manager))
 \<and> spawned_for ''web'' (effects (processManager
       (snd (StartTunnel ok_env ''web'' (snd (StartTunnel ok_env ''web'' web_manager)))))) = 1"
proof -
  have r: "map_of (tunnels running_manager) ''web'' = Some (web_tunnel\<lparr> Status := StatusRunning, PID := 4242 \<rparr>)"
    by (simp add: running_manager_def)
  have s: "Status (web_tunnel\<lparr> Status := StatusRunning, PID := 4242 \<rparr>) = StatusRunning"
    by simp
  have ok: "fst (StartTunnel ok_env ''web'' web_manager) = None"
    by (simp add: start_unfold)
  have key: "\<forall>t. map_of (tunnels web_manager) ''web'' = Some t \<longrightarrow> ID t = ''web''"
    by (simp add: web_manager_def web_tunnel_def)
  have z: "spawned_for ''web'' (effects (processManager web_manager)) = 0"
    by (simp add: web_manager_def NewProcessManager_def)
  have a: "StartTunnel ok_env ''web'' running_manager = (Some AlreadyRunning, running_manager)"
    using StartTunnel_rejects_running [of running_manager "''web''"
        "web_tunnel\<lparr> Status := StatusRunning, PID := 4242 \<rparr>" ok_env ok_env] r s
    by blast
  have b: "StartTunnel ok_env ''web'' (snd (StartTunnel ok_env ''web'' web_manager))
            = (Some AlreadyRunning, snd (StartTunnel ok_env ''web'' web_manager))
     \<and> spawned_for ''web'' (effects (processManager
           (snd (StartTunnel ok_env ''web'' (snd (StartTunnel ok_env ''web'' web_manager))))))
         = spawned_for ''web'' (effects (processManager web_manager)) + 1"
    using StartTunnel_rejects_running [of web_manager "''web''" web_tunnel ok_env ok_env] ok key
    by blast
  from b have b1: "StartTunnel ok_env ''web'' (snd (StartTunnel ok_env ''web'' web_manager))
            = (Some AlreadyRunning, snd (StartTunnel ok_env ''web'' web_manager))" by blast
  from b have "spawned_for ''web'' (effects (processManager
           (snd (StartTunnel ok_env ''web'' (snd (StartTunnel ok_env ''web'' web_manager))))))
         = spawned_for ''web'' (effects (processManager web_manager)) + 1" by blast
  then have b2: "spawned_for ''web'' (effects (processManager
           (snd (StartTunnel ok_env ''web'' (snd (StartTunnel ok_env ''web'' web_manager)))))) = 1"
    unfolding z by simp
  from r a ok b1 b2 show ?thesis by blast
qed

text \<open>
  The guard of \<^verbatim>\<open>StartTunnel\<close> compares the status with \<^verbatim>\<open>running\<close> only. A tunnel that another
  call has marked as connecting is started again: the second call returns no error, and
  when the first call goes on, two children have been started for the one identifier.
\<close>

theorem StartTunnel_accepts_connecting:
  "map_option Status (map_of (tunnels connecting_manager) ''web'') = Some StatusConnecting
 \<and> fst (StartTunnel ok_env ''web'' connecting_manager) = None
 \<and> spawned_for ''web'' (effects (processManager overlapping_starts)) = 2"
  by (simp add: connecting_manager_def overlapping_starts_def start_unfold)

subsection \<open>Terminating a child\<close>

lemma Disconnect_wait_result:
  "Disconnect_wait env ident info pm =
     (None, pm\<lparr> effects := effects pm @ [WaitExit (Cmd info) 5]
                    @ (if waitReturns env (Cmd info) then [] else [Kill (Process (Cmd info)) SIGKILL]),
                 processes := AList.delete ident (processes pm) \<rparr>)"
  by (simp add: Disconnect_wait_def Let_def)

lemma map_of_delete_same: "map_of (AList.delete k al) k = None"
  by (simp add: delete_conv')

text \<open>
  Claim C2, as the code has it. For a tunnel with a handle in the table, \<^verbatim>\<open>Disconnect\<close>
  first sends SIGTERM to the process group. If that is delivered it waits up to five
  seconds for the exit; nothing more is sent when the child exits in time, and one SIGKILL
  follows when it does not; then the handle is deleted and the result is \<^verbatim>\<open>nil\<close>. If
  SIGTERM cannot be delivered, SIGKILL goes to the process group at once, before any
  waiting; when that is delivered the wait and the deletion follow as before, and when it
  fails too \<^verbatim>\<open>Disconnect\<close> returns "failed to kill process" and the handle stays in the table.
\<close>

theorem Disconnect_two_phase:
  assumes "map_of (processes pm) ident = Some info"
  shows "(deliverErr env (ProcessGroup (Cmd info)) SIGTERM = None \<longrightarrow>
            fst (Disconnect env ident p pm) = None
          \<and> map_of (processes (snd (Disconnect env ident p pm))) ident = None
          \<and> (\<exists>k. effects (snd (Disconnect env ident p pm)) =
                 effects pm @ [Kill (ProcessGroup (Cmd info)) SIGTERM, WaitExit (Cmd info) 5]
                   @ (if waitReturns env (Cmd info) then [] else [Kill k SIGKILL])))
       \<and> (deliverErr env (ProcessGroup (Cmd info)) SIGTERM \<noteq> None
            \<and> deliverErr env (ProcessGroup (Cmd info)) SIGKILL = None \<longrightarrow>
            fst (Disconnect env ident p pm) = None
          \<and> map_of (processes (snd (Disconnect env ident p pm))) ident = None
          \<and> (\<exists>k. effects (snd (Disconnect env ident p pm)) =
                 effects pm @ [Kill (ProcessGroup (Cmd info)) SIGTERM,
                               Kill (ProcessGroup (Cmd info)) SIGKILL, WaitExit (Cmd info) 5]
                   @ (if waitReturns env (Cmd info) then [] else [Kill k SIGKILL])))
       \<and> (deliverErr env (ProcessGroup (Cmd info)) SIGTERM \<noteq> None
            \<and> deliverErr env (ProcessGroup (Cmd info)) SIGKILL = Some err \<longrightarrow>
            Disconnect env ident p pm =
              (Some (Wrap ''failed to kill process'' err),
               pm\<lparr> effects := effects pm @ [Kill (ProcessGroup (Cmd info)) SIGTERM,
                                             Kill (ProcessGroup (Cmd info)) SIGKILL] \<rparr>))"
proof -
  have a: "deliverErr env (ProcessGroup (Cmd info)) SIGTERM = None \<longrightarrow>
            fst (Disconnect env ident p pm) = None
          \<and> map_of (processes (snd (Disconnect env ident p pm))) ident = None
          \<and> (\<exists>k. effects (snd (Disconnect env ident p pm)) =
                 effects pm @ [Kill (ProcessGroup (Cmd info)) SIGTERM, WaitExit (Cmd info) 5]
                   @ (if waitReturns env (Cmd info) then [] else [Kill k SIGKILL]))"
    using assms
    by (auto simp: Disconnect_def terminateProcess_def Disconnect_wait_result map_of_delete_same)
  have b: "deliverErr env (ProcessGroup (Cmd info)) SIGTERM \<noteq> None
            \<and> deliverErr env (ProcessGroup (Cmd info)) SIGKILL = None \<longrightarrow>
            fst (Disconnect env ident p pm) = None
          \<and> map_of (processes (snd (Disconnect env ident p pm))) ident = None
          \<and> (\<exists>k. effects (snd (Disconnect env ident p pm)) =
                 effects pm @ [Kill (ProcessGroup (Cmd info)) SIGTERM,
                               Kill (ProcessGroup (Cmd info)) SIGKILL, WaitExit (Cmd info) 5]
                   @ (if waitReturns env (Cmd info) then [] else [Kill k SIGKILL]))"
    using assms
    by (auto simp: Disconnect_def terminateProcess_def killProcess_def Disconnect_wait_result
          map_of_delete_same)
  have c: "deliverErr env (ProcessGroup (Cmd info)) SIGTERM \<noteq> None
            \<and> deliverErr env (ProcessGroup (Cmd info)) SIGKILL = Some err \<longrightarrow>
            Disconnect env ident p pm =
              (Some (Wrap ''failed to kill process'' err),
               pm\<lparr> effects := effects pm @ [Kill (ProcessGroup (Cmd info)) SIGTERM,
                                             Kill (ProcessGroup (Cmd info)) SIGKILL] \<rparr>)"
    using assms
    by (auto simp: Disconnect_def terminateProcess_def killProcess_def)
  from a b c show ?thesis by blast
qed

lemma tracking_web: "map_of (processes tracking_pm) ''web'' = Some \<lparr> Cmd = 4242, PID = 4242, StartedAt = 1000 \<rparr>"
  by (simp add: tracking_pm_def)

theorem Disconnect_two_phase_witness:
  "map_of (processes tracking_pm) ''web'' = Some \<lparr> Cmd = 4242, PID = 4242, StartedAt = 1000 \<rparr>
 \<and> deliverErr ok_env (ProcessGroup 4242) SIGTERM = None
 \<and> fst (Disconnect ok_env ''web'' 4242 tracking_pm) = None
 \<and> map_of (processes (snd (Disconnect ok_env ''web'' 4242 tracking_pm))) ''web'' = None
 \<and> effects (snd (Disconnect ok_env ''web'' 4242 tracking_pm))
     = [Kill (ProcessGroup 4242) SIGTERM, WaitExit 4242 5]"
proof -
  have d: "deliverErr ok_env (ProcessGroup 4242) SIGTERM = None"
    by (simp add: ok_env_def)
  have w: "waitReturns ok_env 4242"
    by (simp add: ok_env_def)
  have e: "effects tracking_pm = []"
    by (simp add: tracking_pm_def)
  show ?thesis
    using Disconnect_two_phase [OF tracking_web, of ok_env 4242] d w e tracking_web by simp
qed

text \<open>
  Where neither signal can be delivered (the process group is gone and the waiter has not
  yet removed the handle), SIGKILL is sent with no grace window before it and the handle
  is still in the table afterwards.
\<close>

theorem Disconnect_keeps_handle_when_signals_fail:
  "Disconnect gone_env ''web'' 4242 tracking_pm =
     (Some (Wrap ''failed to kill process'' (OSError ''no such process'')),
      tracking_pm\<lparr> effects := [Kill (ProcessGroup 4242) SIGTERM, Kill (ProcessGroup 4242) SIGKILL] \<rparr>)
 \<and> map_of (processes (snd (Disconnect gone_env ''web'' 4242 tracking_pm))) ''web''
     = Some \<lparr> Cmd = 4242, PID = 4242, StartedAt = 1000 \<rparr>"
  by (simp add: Disconnect_def terminateProcess_def killProcess_def tracking_pm_def gone_env_def ok_env_def)

text \<open>
  The kill after the grace window is \<^verbatim>\<open>Cmd.Process.Kill()\<close>: it addresses the process, while
  \<^verbatim>\<open>killProcess\<close> addresses the process group.
\<close>

lemma Disconnect_timeout_kills_process_only:
  "effects (snd (Disconnect stubborn_env ''web'' 4242 tracking_pm)) =
     [Kill (ProcessGroup 4242) SIGTERM, WaitExit 4242 5, Kill (Process 4242) SIGKILL]"
  by (simp add: Disconnect_def terminateProcess_def Disconnect_wait_result tracking_pm_def
        stubborn_env_def ok_env_def)

subsection \<open>Changing the configuration\<close>

lemma saveTunnels_result:
  "saveTunnels env tm =
    (case configSaveErr env of
       Some err \<Rightarrow> (Some err, tm)
     | None \<Rightarrow> (None, tm\<lparr> configStore := Stored (configOfManager tm) \<rparr>))"
  by (simp add: saveTunnels_def SaveConfig_def configSaveErr_def split: option.splits)

lemma delete_update_absent:
  "map_of al k = None \<Longrightarrow> AList.delete k (AList.update k v al) = al"
  by (simp add: delete_update_same map_of_eq_None_iff)

lemma map_of_update_delete_present:
  "map_of al k = Some v \<Longrightarrow> map_of (AList.update k v (AList.delete k al)) = map_of al"
  by (auto simp: update_conv' delete_conv')

lemma configOfManager_configStore [simp]:
  "configOfManager (tm\<lparr> configStore := f \<rparr>) = configOfManager tm"
  by (simp add: configOfManager_def)

lemma AddTunnel_save_fails:
  assumes "fst (Validate t) = None" "map_of (tunnels tm) (ID t) = None" "configSaveErr env = Some err"
  shows "AddTunnel env t tm = (Some (Wrap ''failed to save tunnel'' err), tm)"
proof -
  obtain t' where v: "Validate t = (None, t')" and i: "ID t' = ID t"
    using assms(1) Validate_ID [of t] by (cases "Validate t") auto
  show ?thesis
    using assms(2,3) by (simp add: AddTunnel_def v i saveTunnels_result delete_update_absent)
qed

lemma AddTunnel_success:
  assumes "fst (AddTunnel env t tm) = None"
  shows "configStore (snd (AddTunnel env t tm)) = Stored (configOfManager (snd (AddTunnel env t tm)))
       \<and> map_of (tunnels (snd (AddTunnel env t tm))) (ID t) = Some (snd (Validate t))"
proof -
  obtain r t' where v: "Validate t = (r, t')" by (cases "Validate t")
  have i: "ID t' = ID t" using Validate_ID [of t] v by simp
  show ?thesis using assms
    by (auto simp: AddTunnel_def v i saveTunnels_result update_conv' split: option.splits)
qed

lemma UpdateTunnel_save_fails:
  assumes "fst (Validate t) = None" "map_of (tunnels tm) (ID t) = Some existing"
    "Status existing \<noteq> StatusRunning" "configSaveErr env = Some err"
  shows "UpdateTunnel env t tm = (Some (Wrap ''failed to save tunnel'' err), tm)"
proof -
  obtain t' where v: "Validate t = (None, t')" and i: "ID t' = ID t"
    using assms(1) Validate_ID [of t] by (cases "Validate t") auto
  show ?thesis
    using assms(2,3,4) by (simp add: UpdateTunnel_def v i saveTunnels_result update_triv)
qed

lemma UpdateTunnel_success:
  assumes "fst (UpdateTunnel env t tm) = None"
  shows "configStore (snd (UpdateTunnel env t tm)) = Stored (configOfManager (snd (UpdateTunnel env t tm)))
       \<and> map_of (tunnels (snd (UpdateTunnel env t tm))) (ID t) = Some (snd (Validate t))"
proof -
  obtain r t' where v: "Validate t = (r, t')" by (cases "Validate t")
  have i: "ID t' = ID t" using Validate_ID [of t] v by simp
  show ?thesis using assms
    by (auto simp: UpdateTunnel_def v i saveTunnels_result update_conv' split: option.splits if_splits)
qed

lemma DeleteTunnel_save_fails:
  assumes "map_of (tunnels tm) ident = Some t" "Status t \<noteq> StatusRunning" "configSaveErr env = Some err"
  shows "fst (DeleteTunnel env ident tm) = Some (Wrap ''failed to save config'' err)
       \<and> map_of (tunnels (snd (DeleteTunnel env ident tm))) = map_of (tunnels tm)
       \<and> (snd (DeleteTunnel env ident tm))\<lparr> tunnels := tunnels tm \<rparr> = tm"
  using assms by (simp add: DeleteTunnel_def saveTunnels_result map_of_update_delete_present)

lemma DeleteTunnel_success:
  assumes "fst (DeleteTunnel env ident tm) = None"
  shows "configStore (snd (DeleteTunnel env ident tm)) = Stored (configOfManager (snd (DeleteTunnel env ident tm)))
       \<and> map_of (tunnels (snd (DeleteTunnel env ident tm))) ident = None"
  using assms
  by (auto simp: DeleteTunnel_def saveTunnels_result delete_conv' split: option.splits if_splits)

lemma profile_fold_keys:
  "fst ` set (fold (\<lambda>(k, t) pm. if Profile t \<noteq> [] \<and> Profile t \<noteq> ''default''
                                  then AList.update (Profile t) True pm else pm) registry acc)
     = fst ` set acc \<union> {n. n \<in> set (map (\<lambda>(k, t). Profile t) registry) \<and> n \<noteq> [] \<and> n \<noteq> ''default''}"
proof (induction registry arbitrary: acc)
  case Nil
  then show ?case by simp
next
  case (Cons e registry)
  obtain k t where e: "e = (k, t)" by (cases e)
  show ?case
    unfolding e by (auto simp: Cons.IH dom_update)
qed

lemma profile_fold_distinct:
  "distinct (map fst acc) \<Longrightarrow>
   distinct (map fst (fold (\<lambda>(k, t) pm. if Profile t \<noteq> [] \<and> Profile t \<noteq> ''default''
                                        then AList.update (Profile t) True pm else pm) registry acc))"
proof (induction registry arbitrary: acc)
  case Nil
  then show ?case by simp
next
  case (Cons e registry)
  obtain k t where e: "e = (k, t)" by (cases e)
  show ?case
    unfolding e using Cons.prems by (simp add: Cons.IH distinct_update)
qed

lemma written_config_configOfManager: "written_config (tunnels tm) (configOfManager tm)"
proof -
  define pm where "pm = fold (\<lambda>(k, t) pm. if Profile t \<noteq> [] \<and> Profile t \<noteq> ''default''
                                  then AList.update (Profile t) True pm else pm)
                           (tunnels tm) [(''default'', True)]"
  have names: "map ProfileInfo.Name (Profiles (configOfManager tm)) = map fst pm"
    by (simp add: configOfManager_def Let_def pm_def case_prod_unfold comp_def)
  have d: "distinct (map fst pm)"
    unfolding pm_def by (rule profile_fold_distinct) simp
  have k: "set (map fst pm) =
      set (''default'' # filter (\<lambda>n. n \<noteq> []) (map (\<lambda>(k, t). Profile t) (tunnels tm)))"
  proof -
    define ps where "ps = map (\<lambda>(k, t). Profile t) (tunnels tm)"
    have "fst ` set pm = fst ` set [(''default'', True)] \<union> {n. n \<in> set ps \<and> n \<noteq> [] \<and> n \<noteq> ''default''}"
      unfolding pm_def ps_def by (rule profile_fold_keys)
    then have "set (map fst pm) = insert ''default'' {n. n \<in> set ps \<and> n \<noteq> [] \<and> n \<noteq> ''default''}"
      by simp
    also have "\<dots> = insert ''default'' {n. n \<in> set ps \<and> n \<noteq> []}"
      by blast
    also have "\<dots> = set (''default'' # filter (\<lambda>n. n \<noteq> []) ps)"
      by (simp only: set_simps set_filter)
    finally show ?thesis unfolding ps_def .
  qed
  have t: "Tunnels (configOfManager tm) =
         map (\<lambda>(k, t). \<lparr> TunnelConfig.ID = ID t, TunnelConfig.Name = Name t, Host = SSHHost t,
                          TunnelConfig.LocalPort = LocalPort t, TunnelConfig.RemotePort = RemotePort t,
                          Mode = Type t, TunnelConfig.Profile = Profile t, Options = ExtraArgs t,
                          TunnelConfig.AutoConnect = AutoConnect t \<rparr>) (tunnels tm)"
    by (simp add: configOfManager_def Let_def configOfTunnel_def)
  have p: "list_all (\<lambda>p. Description p = ProfileInfo.Name p @ '' profile''
                      \<and> TunnelIDs p = [] \<and> \<not> ProfileInfo.AutoConnect p) (Profiles (configOfManager tm))"
    by (simp add: configOfManager_def Let_def list_all_iff case_prod_unfold)
  have v: "Version (configOfManager tm) = ''1.0''"
    by (simp add: configOfManager_def Let_def)
  show ?thesis
    unfolding written_config_def names using v t d k p by simp
qed

lemma written_config_tunnels:
  "written_config (tunnels (tm\<lparr> tunnels := r \<rparr>)) c = written_config r c"
  by simp

lemma AddTunnel_writes:
  assumes "fst (AddTunnel env t tm) = None"
  shows "\<exists>c. snd (AddTunnel env t tm) =
               tm\<lparr> tunnels := AList.update (ID t) (snd (Validate t)) (tunnels tm), configStore := Stored c \<rparr>
            \<and> written_config (AList.update (ID t) (snd (Validate t)) (tunnels tm)) c"
proof -
  obtain r t' where v: "Validate t = (r, t')" by (cases "Validate t")
  have i: "ID t' = ID t" using Validate_ID [of t] v by simp
  define tm1 where "tm1 = tm\<lparr> tunnels := AList.update (ID t) t' (tunnels tm) \<rparr>"
  have w: "written_config (AList.update (ID t) t' (tunnels tm)) (configOfManager tm1)"
    using written_config_configOfManager [of tm1] by (simp add: tm1_def)
  have "snd (AddTunnel env t tm) = tm1\<lparr> configStore := Stored (configOfManager tm1) \<rparr>"
    using assms
    by (auto simp: AddTunnel_def v i saveTunnels_result tm1_def split: option.splits)
  then show ?thesis using w by (auto simp: v tm1_def)
qed

lemma UpdateTunnel_writes:
  assumes "fst (UpdateTunnel env t tm) = None"
  shows "\<exists>c. snd (UpdateTunnel env t tm) =
               tm\<lparr> tunnels := AList.update (ID t) (snd (Validate t)) (tunnels tm), configStore := Stored c \<rparr>
            \<and> written_config (AList.update (ID t) (snd (Validate t)) (tunnels tm)) c"
proof -
  obtain r t' where v: "Validate t = (r, t')" by (cases "Validate t")
  have i: "ID t' = ID t" using Validate_ID [of t] v by simp
  define tm1 where "tm1 = tm\<lparr> tunnels := AList.update (ID t) t' (tunnels tm) \<rparr>"
  have w: "written_config (AList.update (ID t) t' (tunnels tm)) (configOfManager tm1)"
    using written_config_configOfManager [of tm1] by (simp add: tm1_def)
  have "snd (UpdateTunnel env t tm) = tm1\<lparr> configStore := Stored (configOfManager tm1) \<rparr>"
    using assms
    by (auto simp: UpdateTunnel_def v i saveTunnels_result tm1_def split: option.splits if_splits)
  then show ?thesis using w by (auto simp: v tm1_def)
qed

lemma DeleteTunnel_writes:
  assumes "fst (DeleteTunnel env ident tm) = None"
  shows "\<exists>c. snd (DeleteTunnel env ident tm) =
               tm\<lparr> tunnels := AList.delete ident (tunnels tm), configStore := Stored c \<rparr>
            \<and> written_config (AList.delete ident (tunnels tm)) c"
proof -
  define tm1 where "tm1 = tm\<lparr> tunnels := AList.delete ident (tunnels tm) \<rparr>"
  have w: "written_config (AList.delete ident (tunnels tm)) (configOfManager tm1)"
    using written_config_configOfManager [of tm1] by (simp add: tm1_def)
  have "snd (DeleteTunnel env ident tm) = tm1\<lparr> configStore := Stored (configOfManager tm1) \<rparr>"
    using assms
    by (auto simp: DeleteTunnel_def saveTunnels_result tm1_def split: option.splits if_splits)
  then show ?thesis using w by (auto simp: tm1_def)
qed

lemma fst_saveTunnels: "fst (saveTunnels env tm) = configSaveErr env"
  by (simp add: saveTunnels_result split: option.splits)

text \<open>
  Claim C4. When the rewrite of the configuration store that follows the change of the
  registry fails with \<open>err\<close>, \<^verbatim>\<open>AddTunnel\<close> and \<^verbatim>\<open>UpdateTunnel\<close> return
  "failed to save tunnel: err" and \<^verbatim>\<open>DeleteTunnel\<close> returns "failed to save config: err", and
  the registry maps every identifier to what it mapped to before (for add and update the
  whole manager is unchanged; delete re-inserts the tunnel, all other fields are
  unchanged). When one of the three returns no error, the manager differs from the one
  before the call in the registry, which has the validated tunnel under its identifier
  (add, update) or no longer has the identifier (delete), and in the configuration store,
  which holds a full rewrite for that registry: every entry of the registry with its
  fields, and every profile in use.
\<close>

theorem mutations_roll_back:
  "(fst (Validate t) = None \<and> map_of (tunnels tm) (ID t) = None
      \<and> fst (saveTunnels env (tm\<lparr> tunnels := AList.update (ID t) (snd (Validate t)) (tunnels tm) \<rparr>)) = Some err
      \<longrightarrow> AddTunnel env t tm = (Some (Wrap ''failed to save tunnel'' err), tm))
 \<and> (fst (Validate t) = None \<and> map_of (tunnels tm) (ID t) = Some existing
      \<and> Status existing \<noteq> StatusRunning
      \<and> fst (saveTunnels env (tm\<lparr> tunnels := AList.update (ID t) (snd (Validate t)) (tunnels tm) \<rparr>)) = Some err
      \<longrightarrow> UpdateTunnel env t tm = (Some (Wrap ''failed to save tunnel'' err), tm))
 \<and> (map_of (tunnels tm) ident = Some existing \<and> Status existing \<noteq> StatusRunning
      \<and> fst (saveTunnels env (tm\<lparr> tunnels := AList.delete ident (tunnels tm) \<rparr>)) = Some err
      \<longrightarrow> fst (DeleteTunnel env ident tm) = Some (Wrap ''failed to save config'' err)
          \<and> map_of (tunnels (snd (DeleteTunnel env ident tm))) = map_of (tunnels tm)
          \<and> (snd (DeleteTunnel env ident tm))\<lparr> tunnels := tunnels tm \<rparr> = tm)
 \<and> (fst (AddTunnel env t tm) = None
      \<longrightarrow> configStore (snd (AddTunnel env t tm)) = Stored (configOfManager (snd (AddTunnel env t tm)))
          \<and> map_of (tunnels (snd (AddTunnel env t tm))) (ID t) = Some (snd (Validate t))
          \<and> (\<exists>c. snd (AddTunnel env t tm) =
                    tm\<lparr> tunnels := AList.update (ID t) (snd (Validate t)) (tunnels tm),
                        configStore := Stored c \<rparr>
                 \<and> written_config (AList.update (ID t) (snd (Validate t)) (tunnels tm)) c))
 \<and> (fst (UpdateTunnel env t tm) = None
      \<longrightarrow> configStore (snd (UpdateTunnel env t tm)) = Stored (configOfManager (snd (UpdateTunnel env t tm)))
          \<and> map_of (tunnels (snd (UpdateTunnel env t tm))) (ID t) = Some (snd (Validate t))
          \<and> (\<exists>c. snd (UpdateTunnel env t tm) =
                    tm\<lparr> tunnels := AList.update (ID t) (snd (Validate t)) (tunnels tm),
                        configStore := Stored c \<rparr>
                 \<and> written_config (AList.update (ID t) (snd (Validate t)) (tunnels tm)) c))
 \<and> (fst (DeleteTunnel env ident tm) = None
      \<longrightarrow> configStore (snd (DeleteTunnel env ident tm)) = Stored (configOfManager (snd (DeleteTunnel env ident tm)))
          \<and> map_of (tunnels (snd (DeleteTunnel env ident tm))) ident = None
          \<and> (\<exists>c. snd (DeleteTunnel env ident tm) =
                    tm\<lparr> tunnels := AList.delete ident (tunnels tm), configStore := Stored c \<rparr>
                 \<and> written_config (AList.delete ident (tunnels tm)) c))"
proof -
  have fails: "(fst (Validate t) = None \<and> map_of (tunnels tm) (ID t) = None
      \<and> fst (saveTunnels env (tm\<lparr> tunnels := AList.update (ID t) (snd (Validate t)) (tunnels tm) \<rparr>)) = Some err
      \<longrightarrow> AddTunnel env t tm = (Some (Wrap ''failed to save tunnel'' err), tm))
    \<and> (fst (Validate t) = None \<and> map_of (tunnels tm) (ID t) = Some existing
      \<and> Status existing \<noteq> StatusRunning
      \<and> fst (saveTunnels env (tm\<lparr> tunnels := AList.update (ID t) (snd (Validate t)) (tunnels tm) \<rparr>)) = Some err
      \<longrightarrow> UpdateTunnel env t tm = (Some (Wrap ''failed to save tunnel'' err), tm))
    \<and> (map_of (tunnels tm) ident = Some existing \<and> Status existing \<noteq> StatusRunning
      \<and> fst (saveTunnels env (tm\<lparr> tunnels := AList.delete ident (tunnels tm) \<rparr>)) = Some err
      \<longrightarrow> fst (DeleteTunnel env ident tm) = Some (Wrap ''failed to save config'' err)
          \<and> map_of (tunnels (snd (DeleteTunnel env ident tm))) = map_of (tunnels tm)
          \<and> (snd (DeleteTunnel env ident tm))\<lparr> tunnels := tunnels tm \<rparr> = tm)"
    unfolding fst_saveTunnels
    using AddTunnel_save_fails [of t tm env err] UpdateTunnel_save_fails [of t tm existing env err]
      DeleteTunnel_save_fails [of tm ident existing env err]
    by blast
  have add: "fst (AddTunnel env t tm) = None
      \<longrightarrow> configStore (snd (AddTunnel env t tm)) = Stored (configOfManager (snd (AddTunnel env t tm)))
          \<and> map_of (tunnels (snd (AddTunnel env t tm))) (ID t) = Some (snd (Validate t))
          \<and> (\<exists>c. snd (AddTunnel env t tm) =
                    tm\<lparr> tunnels := AList.update (ID t) (snd (Validate t)) (tunnels tm),
                        configStore := Stored c \<rparr>
                 \<and> written_config (AList.update (ID t) (snd (Validate t)) (tunnels tm)) c)"
    using AddTunnel_success [of env t tm] AddTunnel_writes [of env t tm] by blast
  have upd: "fst (UpdateTunnel env t tm) = None
      \<longrightarrow> configStore (snd (UpdateTunnel env t tm)) = Stored (configOfManager (snd (UpdateTunnel env t tm)))
          \<and> map_of (tunnels (snd (UpdateTunnel env t tm))) (ID t) = Some (snd (Validate t))
          \<and> (\<exists>c. snd (UpdateTunnel env t tm) =
                    tm\<lparr> tunnels := AList.update (ID t) (snd (Validate t)) (tunnels tm),
                        configStore := Stored c \<rparr>
                 \<and> written_config (AList.update (ID t) (snd (Validate t)) (tunnels tm)) c)"
    using UpdateTunnel_success [of env t tm] UpdateTunnel_writes [of env t tm] by blast
  have del: "fst (DeleteTunnel env ident tm) = None
      \<longrightarrow> configStore (snd (DeleteTunnel env ident tm)) = Stored (configOfManager (snd (DeleteTunnel env ident tm)))
          \<and> map_of (tunnels (snd (DeleteTunnel env ident tm))) ident = None
          \<and> (\<exists>c. snd (DeleteTunnel env ident tm) =
                    tm\<lparr> tunnels := AList.delete ident (tunnels tm), configStore := Stored c \<rparr>
                 \<and> written_config (AList.delete ident (tunnels tm)) c)"
    using DeleteTunnel_success [of env ident tm] DeleteTunnel_writes [of env ident tm] by blast
  from fails add upd del show ?thesis by blast
qed

lemma Validate_api: "fst (Validate api_tunnel) = None"
  by (simp add: Validate_def api_tunnel_def web_tunnel_def LocalForward_def)

lemma Validate_web: "fst (Validate web_tunnel) = None"
  by (simp add: Validate_def web_tunnel_def LocalForward_def)

lemma web_not_running: "Status web_tunnel \<noteq> StatusRunning"
  by (simp add: web_tunnel_def StatusStopped_def StatusRunning_def)

lemma configSaveErr_disk_full:
  "configSaveErr disk_full_env = Some (Wrap ''failed to write config file'' (OSError ''no space left on device''))"
  by (simp add: configSaveErr_def disk_full_env_def ok_env_def)

lemma configSaveErr_ok: "configSaveErr ok_env = None"
  by (simp add: configSaveErr_def ok_env_def)

theorem mutations_roll_back_witness:
  "AddTunnel disk_full_env api_tunnel web_manager =
     (Some (Wrap ''failed to save tunnel''
             (Wrap ''failed to write config file'' (OSError ''no space left on device''))), web_manager)
 \<and> UpdateTunnel disk_full_env web_tunnel web_manager =
     (Some (Wrap ''failed to save tunnel''
             (Wrap ''failed to write config file'' (OSError ''no space left on device''))), web_manager)
 \<and> map_of (tunnels (snd (DeleteTunnel disk_full_env ''web'' web_manager))) = map_of (tunnels web_manager)
 \<and> fst (AddTunnel ok_env api_tunnel web_manager) = None
 \<and> configStore (snd (AddTunnel ok_env api_tunnel web_manager))
     = Stored (configOfManager (snd (AddTunnel ok_env api_tunnel web_manager)))
 \<and> fst (UpdateTunnel ok_env web_tunnel web_manager) = None
 \<and> configStore (snd (UpdateTunnel ok_env web_tunnel web_manager))
     = Stored (configOfManager (snd (UpdateTunnel ok_env web_tunnel web_manager)))
 \<and> fst (DeleteTunnel ok_env ''web'' web_manager) = None
 \<and> map_of (tunnels (snd (DeleteTunnel ok_env ''web'' web_manager))) ''web'' = None
 \<and> snd (AddTunnel ok_env api_tunnel web_manager) =
     web_manager\<lparr> tunnels := [(''web'', web_tunnel), (''api'', api_tunnel)],
       configStore := Stored
         \<lparr> Version = ''1.0'',
           Tunnels =
             [\<lparr> TunnelConfig.ID = ''web'', TunnelConfig.Name = ''web'', Host = ''example.com'',
                TunnelConfig.LocalPort = 8080, TunnelConfig.RemotePort = 80, Mode = ''local'',
                TunnelConfig.Profile = ''default'', Options = [], TunnelConfig.AutoConnect = False \<rparr>,
              \<lparr> TunnelConfig.ID = ''api'', TunnelConfig.Name = ''api'', Host = ''example.com'',
                TunnelConfig.LocalPort = 9090, TunnelConfig.RemotePort = 80, Mode = ''local'',
                TunnelConfig.Profile = ''default'', Options = [], TunnelConfig.AutoConnect = False \<rparr>],
           Profiles =
             [\<lparr> ProfileInfo.Name = ''default'', Description = ''default profile'', TunnelIDs = [],
                ProfileInfo.AutoConnect = False \<rparr>] \<rparr> \<rparr>
 \<and> snd (DeleteTunnel ok_env ''web'' web_manager) =
     web_manager\<lparr> tunnels := [],
       configStore := Stored
         \<lparr> Version = ''1.0'', Tunnels = [],
           Profiles =
             [\<lparr> ProfileInfo.Name = ''default'', Description = ''default profile'', TunnelIDs = [],
                ProfileInfo.AutoConnect = False \<rparr>] \<rparr> \<rparr>"
proof -
  have absent: "map_of (tunnels web_manager) (ID api_tunnel) = None"
    by (simp add: web_manager_def api_tunnel_def web_tunnel_def)
  have present: "map_of (tunnels web_manager) (ID web_tunnel) = Some web_tunnel"
    by (simp add: web_manager_def web_tunnel_def)
  have present': "map_of (tunnels web_manager) ''web'' = Some web_tunnel"
    by (simp add: web_manager_def)
  obtain ta where va: "Validate api_tunnel = (None, ta)"
    using Validate_api by (cases "Validate api_tunnel") auto
  have ia: "ID ta = ID api_tunnel" using Validate_ID [of api_tunnel] va by simp
  obtain tw where vw: "Validate web_tunnel = (None, tw)"
    using Validate_web by (cases "Validate web_tunnel") auto
  have iw: "ID tw = ID web_tunnel" using Validate_ID [of web_tunnel] vw by simp
  have add_ok: "fst (AddTunnel ok_env api_tunnel web_manager) = None"
    using absent by (simp add: AddTunnel_def va ia saveTunnels_result configSaveErr_ok)
  have upd_ok: "fst (UpdateTunnel ok_env web_tunnel web_manager) = None"
    using present web_not_running
    by (simp add: UpdateTunnel_def vw iw saveTunnels_result configSaveErr_ok)
  have del_ok: "fst (DeleteTunnel ok_env ''web'' web_manager) = None"
    using present' web_not_running
    by (simp add: DeleteTunnel_def saveTunnels_result configSaveErr_ok)
  have lit_add: "snd (AddTunnel ok_env api_tunnel web_manager) =
     web_manager\<lparr> tunnels := [(''web'', web_tunnel), (''api'', api_tunnel)],
       configStore := Stored
         \<lparr> Version = ''1.0'',
           Tunnels =
             [\<lparr> TunnelConfig.ID = ''web'', TunnelConfig.Name = ''web'', Host = ''example.com'',
                TunnelConfig.LocalPort = 8080, TunnelConfig.RemotePort = 80, Mode = ''local'',
                TunnelConfig.Profile = ''default'', Options = [], TunnelConfig.AutoConnect = False \<rparr>,
              \<lparr> TunnelConfig.ID = ''api'', TunnelConfig.Name = ''api'', Host = ''example.com'',
                TunnelConfig.LocalPort = 9090, TunnelConfig.RemotePort = 80, Mode = ''local'',
                TunnelConfig.Profile = ''default'', Options = [], TunnelConfig.AutoConnect = False \<rparr>],
           Profiles =
             [\<lparr> ProfileInfo.Name = ''default'', Description = ''default profile'', TunnelIDs = [],
                ProfileInfo.AutoConnect = False \<rparr>] \<rparr> \<rparr>"
    by (simp add: AddTunnel_def Validate_def saveTunnels_def SaveConfig_def configOfManager_def
          configOfTunnel_def Let_def api_tunnel_def web_tunnel_def web_manager_def ok_env_def
          LocalForward_def)
  have lit_del: "snd (DeleteTunnel ok_env ''web'' web_manager) =
     web_manager\<lparr> tunnels := [],
       configStore := Stored
         \<lparr> Version = ''1.0'', Tunnels = [],
           Profiles =
             [\<lparr> ProfileInfo.Name = ''default'', Description = ''default profile'', TunnelIDs = [],
                ProfileInfo.AutoConnect = False \<rparr>] \<rparr> \<rparr>"
    by (simp add: DeleteTunnel_def saveTunnels_def SaveConfig_def configOfManager_def
          configOfTunnel_def Let_def web_tunnel_def web_manager_def ok_env_def
          StatusStopped_def StatusRunning_def)
  have roll: "AddTunnel disk_full_env api_tunnel web_manager =
     (Some (Wrap ''failed to save tunnel''
             (Wrap ''failed to write config file'' (OSError ''no space left on device''))), web_manager)
   \<and> UpdateTunnel disk_full_env web_tunnel web_manager =
     (Some (Wrap ''failed to save tunnel''
             (Wrap ''failed to write config file'' (OSError ''no space left on device''))), web_manager)
   \<and> map_of (tunnels (snd (DeleteTunnel disk_full_env ''web'' web_manager))) = map_of (tunnels web_manager)"
    using mutations_roll_back [of api_tunnel web_manager disk_full_env
        "Wrap ''failed to write config file'' (OSError ''no space left on device'')" web_tunnel "''web''"]
      mutations_roll_back [of web_tunnel web_manager disk_full_env
        "Wrap ''failed to write config file'' (OSError ''no space left on device'')" web_tunnel "''web''"]
      Validate_api Validate_web absent present present' web_not_running configSaveErr_disk_full
    by (simp add: fst_saveTunnels)
  have wrote: "configStore (snd (AddTunnel ok_env api_tunnel web_manager))
       = Stored (configOfManager (snd (AddTunnel ok_env api_tunnel web_manager)))
   \<and> configStore (snd (UpdateTunnel ok_env web_tunnel web_manager))
       = Stored (configOfManager (snd (UpdateTunnel ok_env web_tunnel web_manager)))
   \<and> map_of (tunnels (snd (DeleteTunnel ok_env ''web'' web_manager))) ''web'' = None"
    using mutations_roll_back [of api_tunnel web_manager ok_env err web_tunnel "''web''" for err]
      mutations_roll_back [of web_tunnel web_manager ok_env err web_tunnel "''web''" for err]
      add_ok upd_ok del_ok
    by blast
  from roll wrote add_ok upd_ok del_ok lit_add lit_del show ?thesis by blast
qed

subsection \<open>The PID ledger\<close>

lemma update_absent: "k \<notin> fst ` set al \<Longrightarrow> AList.update k v al = al @ [(k, v)]"
  by (induction al) auto

lemma fold_clean:
  "distinct (map fst pids) \<Longrightarrow> fst ` set acc \<inter> fst ` set pids = {} \<Longrightarrow>
   fold (\<lambda>(tunnelID, entry) cleaned.
            if isProcessRunning env (pid entry) then AList.update tunnelID entry cleaned else cleaned)
        pids acc
   = acc @ filter (alive env) pids"
proof (induction pids arbitrary: acc)
  case Nil
  then show ?case by simp
next
  case (Cons x pids)
  obtain k e where x: "x = (k, e)" by (cases x)
  have k: "k \<notin> fst ` set acc" using Cons.prems(2) x by auto
  have d: "distinct (map fst pids)" using Cons.prems(1) by simp
  have kp: "k \<notin> fst ` set pids" using Cons.prems(1) x by (simp add: image_iff)
  show ?case
  proof (cases "isProcessRunning env (pid e)")
    case True
    have disj: "fst ` set (acc @ [(k, e)]) \<inter> fst ` set pids = {}"
      using Cons.prems(2) kp x by auto
    show ?thesis
      using Cons.IH [OF d disj] True k by (simp add: x update_absent alive_def)
  next
    case False
    have disj: "fst ` set acc \<inter> fst ` set pids = {}"
      using Cons.prems(2) by auto
    show ?thesis
      using Cons.IH [OF d disj] False by (simp add: x alive_def)
  qed
qed

lemma cleanPids_filter: "distinct (map fst pids) \<Longrightarrow> cleanPids env pids = filter (alive env) pids"
  using fold_clean [of pids "[]" env] by (simp add: cleanPids_def)

lemma filter_length_eq: "length (filter P xs) = length xs \<longleftrightarrow> filter P xs = xs"
proof
  assume "length (filter P xs) = length xs"
  then show "filter P xs = xs"
  proof (induction xs)
    case Nil
    then show ?case by simp
  next
    case (Cons a xs)
    show ?case
    proof (cases "P a")
      case True
      then show ?thesis using Cons by simp
    next
      case False
      then have "length (filter P xs) = Suc (length xs)" using Cons.prems by simp
      then show ?thesis using length_filter_le [of P xs] by linarith
    qed
  qed
next
  assume "filter P xs = xs"
  then show "length (filter P xs) = length xs" by simp
qed


lemma LoadPids_Stored:
  assumes "distinct (map fst pids)" and "content fps = Stored pids"
  shows "LoadPids env fps =
           (Inr \<lparr> Pids = filter (alive env) pids \<rparr>,
            if filter (alive env) pids = pids then fps
            else fps\<lparr> saving := saving fps @ [\<lparr> Pids = filter (alive env) pids \<rparr>] \<rparr>)"
  by (simp add: LoadPids_def assms(2) Let_def cleanPids_filter [OF assms(1)] filter_length_eq)

lemma SavePids_ok:
  assumes "pid_io_ok env"
  shows "SavePids env (Some d) fps =
           (None, fps\<lparr> content := (if Pids d = [] then NoFile else Stored (Pids d)) \<rparr>)"
  using assms by (cases "content fps") (simp_all add: SavePids_def pid_io_ok_def)

lemma SavePids_same:
  assumes "pids \<noteq> []" and "content fps = Stored pids"
  shows "snd (SavePids env (Some \<lparr> Pids = pids \<rparr>) fps) = fps"
  using assms by (simp add: SavePids_def split: option.splits)

lemma runSaving_last:
  "runSaving env (length (saving fps)) (fps\<lparr> saving := saving fps @ [d] \<rparr>)
     = (snd (SavePids env (Some d) (fps\<lparr> saving := saving fps @ [d] \<rparr>)))\<lparr> saving := saving fps \<rparr>"
  by (simp add: runSaving_def)

lemma runSaving_none: "runSaving env (length (saving fps)) fps = fps"
  by (simp add: runSaving_def)

text \<open>
  Claim C5, as the code has it. Let the ledger file hold \<open>N\<close> entries with distinct
  identifiers. \<^verbatim>\<open>LoadPids\<close> returns exactly the entries whose process is running, in their
  order, and leaves the file as it is. When all processes are running and \<open>N \<ge> 1\<close>, saving
  what was loaded leaves the store as it was, whether or not the write succeeds. When the
  PID file can be written and removed, the file after saving what was loaded holds exactly
  the running entries, \<open>M\<close> entries when \<open>M\<close> processes are running, and does not exist when
  \<open>M = 0\<close>; this is so whether the goroutine that \<^verbatim>\<open>LoadPids\<close> started has not run yet, runs
  after the save, or ran between the load and the save.
\<close>

theorem load_keeps_running_entries:
  assumes "distinct (map fst pids)" and "content fps = Stored pids"
  shows "fst (LoadPids env fps) = Inr \<lparr> Pids = filter (alive env) pids \<rparr>
       \<and> content (snd (LoadPids env fps)) = Stored pids
       \<and> (filter (alive env) pids = pids \<and> pids \<noteq> [] \<longrightarrow> snd (save_after_load env fps) = fps)
       \<and> (pid_io_ok env \<longrightarrow>
            content (snd (save_after_load env fps)) =
              (if filter (alive env) pids = [] then NoFile else Stored (filter (alive env) pids))
          \<and> content (runSaving env (length (saving fps)) (snd (save_after_load env fps))) =
              (if filter (alive env) pids = [] then NoFile else Stored (filter (alive env) pids))
          \<and> content (snd (SavePids env (Some \<lparr> Pids = filter (alive env) pids \<rparr>)
                            (runSaving env (length (saving fps)) (snd (LoadPids env fps))))) =
              (if filter (alive env) pids = [] then NoFile else Stored (filter (alive env) pids)))"
proof -
  note l = LoadPids_Stored [OF assms, of env]
  have a: "fst (LoadPids env fps) = Inr \<lparr> Pids = filter (alive env) pids \<rparr>"
    by (simp add: l)
  have b: "content (snd (LoadPids env fps)) = Stored pids"
    by (simp add: l assms(2))
  have c: "snd (save_after_load env fps) = fps"
    if "filter (alive env) pids = pids" "pids \<noteq> []"
    using that by (simp add: save_after_load_def l SavePids_same assms(2))
  have d: "content (snd (save_after_load env fps)) =
              (if filter (alive env) pids = [] then NoFile else Stored (filter (alive env) pids))"
    if "pid_io_ok env"
    by (simp add: save_after_load_def l SavePids_ok [OF that])
  have e: "content (runSaving env (length (saving fps)) (snd (save_after_load env fps))) =
              (if filter (alive env) pids = [] then NoFile else Stored (filter (alive env) pids))"
    if io: "pid_io_ok env"
  proof (cases "filter (alive env) pids = pids")
    case True
    have "snd (save_after_load env fps) =
            fps\<lparr> content := (if pids = [] then NoFile else Stored pids) \<rparr>"
      using True by (simp add: save_after_load_def l SavePids_ok [OF io])
    then show ?thesis
      using True by (simp add: runSaving_def)
  next
    case False
    have "snd (save_after_load env fps) =
            fps\<lparr> saving := saving fps @ [\<lparr> Pids = filter (alive env) pids \<rparr>],
                 content := (if filter (alive env) pids = [] then NoFile
                             else Stored (filter (alive env) pids)) \<rparr>"
      using False by (simp add: save_after_load_def l SavePids_ok [OF io])
    then show ?thesis
      by (simp add: runSaving_def SavePids_ok [OF io])
  qed
  have f: "content (snd (SavePids env (Some \<lparr> Pids = filter (alive env) pids \<rparr>)
                            (runSaving env (length (saving fps)) (snd (LoadPids env fps))))) =
              (if filter (alive env) pids = [] then NoFile else Stored (filter (alive env) pids))"
    if io: "pid_io_ok env"
    by (simp add: SavePids_ok [OF io])
  from a b c d e f show ?thesis by simp
qed

lemma alive_4242:
  "filter (alive only_4242_env) three_pids
     = [(''web'', \<lparr> pid = 4242, started = ''2025-12-31T23:59:00Z'', tunnelId = ''web'' \<rparr>)]"
  by (simp add: three_pids_def alive_def isProcessRunning_def only_4242_env_def ok_env_def)

lemma alive_ok: "filter (alive ok_env) three_pids = three_pids"
  by (simp add: three_pids_def alive_def isProcessRunning_def ok_env_def)

lemma alive_none: "filter (alive all_dead_env) three_pids = []"
  by (simp add: three_pids_def alive_def isProcessRunning_def all_dead_env_def ok_env_def)

lemma distinct_three: "distinct (map fst three_pids)"
  by (simp add: three_pids_def)

lemma content_three: "content three_store = Stored three_pids"
  by (simp add: three_store_def)

theorem load_keeps_running_entries_witness:
  "distinct (map fst three_pids) \<and> content three_store = Stored three_pids
 \<and> fst (LoadPids only_4242_env three_store)
     = Inr \<lparr> Pids = [(''web'', \<lparr> pid = 4242, started = ''2025-12-31T23:59:00Z'', tunnelId = ''web'' \<rparr>)] \<rparr>
 \<and> content (snd (LoadPids only_4242_env three_store)) = Stored three_pids
 \<and> pid_io_ok only_4242_env
 \<and> content (snd (save_after_load only_4242_env three_store))
     = Stored [(''web'', \<lparr> pid = 4242, started = ''2025-12-31T23:59:00Z'', tunnelId = ''web'' \<rparr>)]
 \<and> pid_io_ok all_dead_env
 \<and> content (snd (save_after_load all_dead_env three_store)) = NoFile
 \<and> filter (alive ok_env) three_pids = three_pids \<and> three_pids \<noteq> []
 \<and> snd (save_after_load ok_env three_store) = three_store"
proof -
  have io: "pid_io_ok only_4242_env"
    by (simp add: pid_io_ok_def only_4242_env_def ok_env_def)
  have io': "pid_io_ok all_dead_env"
    by (simp add: pid_io_ok_def all_dead_env_def ok_env_def)
  have ne: "three_pids \<noteq> []"
    by (simp add: three_pids_def)
  show ?thesis
    using load_keeps_running_entries [OF distinct_three content_three, of only_4242_env]
      load_keeps_running_entries [OF distinct_three content_three, of all_dead_env]
      load_keeps_running_entries [OF distinct_three content_three, of ok_env]
      distinct_three content_three io io' ne alive_ok
    by (simp add: alive_4242 alive_none)
qed

text \<open>
  With three entries of which one is running, the file after load and save has one entry,
  which is the number of running processes and not the number of the others. And a file
  that holds no entries is not left as it is: save removes it.
\<close>

theorem load_keeps_M_not_N_minus_M:
  "length three_pids = 3
 \<and> length (filter (alive only_4242_env) three_pids) = 1
 \<and> fst (LoadPids only_4242_env three_store)
     = Inr \<lparr> Pids = [(''web'', \<lparr> pid = 4242, started = ''2025-12-31T23:59:00Z'', tunnelId = ''web'' \<rparr>)] \<rparr>
 \<and> content (snd (save_after_load only_4242_env three_store))
     = Stored [(''web'', \<lparr> pid = 4242, started = ''2025-12-31T23:59:00Z'', tunnelId = ''web'' \<rparr>)]
 \<and> length (ledger (content (snd (save_after_load only_4242_env three_store))))
     \<noteq> length three_pids - length (filter (alive only_4242_env) three_pids)
 \<and> content (snd (save_after_load ok_env \<lparr> content = Stored [], saving = [] \<rparr>)) = NoFile
 \<and> content (snd (save_after_load ok_env \<lparr> content = Stored [], saving = [] \<rparr>)) \<noteq> Stored []"
proof -
  have io: "pid_io_ok only_4242_env"
    by (simp add: pid_io_ok_def only_4242_env_def ok_env_def)
  have n: "length three_pids = 3"
    by (simp add: three_pids_def)
  have ne: "filter (alive only_4242_env) three_pids \<noteq> three_pids"
    by (simp add: alive_4242) (simp add: three_pids_def)
  have l: "LoadPids only_4242_env three_store =
      (Inr \<lparr> Pids = filter (alive only_4242_env) three_pids \<rparr>,
       three_store\<lparr> saving := saving three_store @ [\<lparr> Pids = filter (alive only_4242_env) three_pids \<rparr>] \<rparr>)"
    using LoadPids_Stored [OF distinct_three content_three, of only_4242_env] ne by simp
  have s: "content (snd (save_after_load only_4242_env three_store))
      = Stored (filter (alive only_4242_env) three_pids)"
    by (simp add: save_after_load_def l SavePids_ok [OF io] alive_4242)
  have e: "content (snd (save_after_load ok_env \<lparr> content = Stored [], saving = [] \<rparr>)) = NoFile"
    by (simp add: save_after_load_def LoadPids_def cleanPids_def SavePids_def ok_env_def)
  show ?thesis
    by (simp add: n s l e alive_4242 ledger_def)
qed

subsection \<open>Reconciliation at startup\<close>

lemma ledger_simps [simp]:
  "ledger NoFile = []" "ledger (Stored pids) = pids"
  by (simp_all add: ledger_def)

lemma distinct_filter_keys: "distinct (map fst al) \<Longrightarrow> distinct (map fst (filter P al))"
  by (simp add: distinct_map_filter)

text \<open>What the loop of \<^verbatim>\<open>restoreTunnelStates\<close> does to the registry.\<close>

lemma restoreEntry_tunnels_None:
  "map_of (tunnels tm) k = None \<Longrightarrow> map_of (tunnels (restoreEntry env e tm)) k = None"
  by (auto simp: restoreEntry_def Let_def update_conv' split: prod.splits option.splits)

lemma fold_restore_tunnels_None:
  "map_of (tunnels tm) k = None \<Longrightarrow> map_of (tunnels (fold (restoreEntry env) es tm)) k = None"
  by (induction es arbitrary: tm) (simp_all add: restoreEntry_tunnels_None)

lemma restoreEntry_other_key:
  "k \<noteq> fst e \<Longrightarrow> map_of (tunnels (restoreEntry env e tm)) k = map_of (tunnels tm) k"
  by (auto simp: restoreEntry_def Let_def update_conv' split: prod.splits option.splits)

lemma fold_restore_other_keys:
  "k \<notin> fst ` set es \<Longrightarrow> map_of (tunnels (fold (restoreEntry env) es tm)) k = map_of (tunnels tm) k"
  by (induction es arbitrary: tm) (simp_all add: restoreEntry_other_key)

lemma isProcessRunning_D:
  "isProcessRunning env p \<Longrightarrow> findProcessErr env p = None \<and> signal0Err env p = None \<and> 0 < p"
  by (auto simp: isProcessRunning_def split: if_splits)

lemma restoreEntry_running:
  assumes "map_of (tunnels tm) k = Some t" and "isProcessRunning env (pid info)"
  shows "map_of (tunnels (restoreEntry env (k, info) tm)) k =
           Some (t\<lparr> Status := StatusRunning, PID := pid info,
                    StartedAt := Some (case parseRFC3339 env (started info) of
                                         Some startTime \<Rightarrow> startTime | None \<Rightarrow> now env) \<rparr>)"
  using assms(1) isProcessRunning_D [OF assms(2)]
  by (simp add: restoreEntry_def Let_def update_conv' split: option.splits)

lemma fold_restore_running:
  assumes run: "isProcessRunning env (pid info)"
  shows "distinct (map fst es) \<Longrightarrow> (k, info) \<in> set es \<Longrightarrow> map_of (tunnels tm) k = Some t \<Longrightarrow>
         map_of (tunnels (fold (restoreEntry env) es tm)) k =
           Some (t\<lparr> Status := StatusRunning, PID := pid info,
                    StartedAt := Some (case parseRFC3339 env (started info) of
                                         Some startTime \<Rightarrow> startTime | None \<Rightarrow> now env) \<rparr>)"
proof (induction es arbitrary: tm)
  case Nil
  then show ?case by simp
next
  case (Cons e es)
  have d: "distinct (map fst es)" and fresh: "fst e \<notin> fst ` set es"
    using Cons.prems(1) by simp_all
  show ?case
  proof (cases "fst e = k")
    case True
    have "(k, info) \<notin> set es"
    proof
      assume "(k, info) \<in> set es"
      then have "fst (k, info) \<in> fst ` set es" by (rule imageI)
      then show False using fresh True by simp
    qed
    then have e: "e = (k, info)" using Cons.prems(2) by simp
    have "k \<notin> fst ` set es" using fresh True by simp
    then show ?thesis
      using restoreEntry_running [OF Cons.prems(3) run]
      by (simp add: e fold_restore_other_keys)
  next
    case False
    then have m: "(k, info) \<in> set es" using Cons.prems(2) by auto
    have "map_of (tunnels (restoreEntry env e tm)) k = Some t"
      using False Cons.prems(3) by (simp add: restoreEntry_other_key)
    from Cons.IH [OF d m this] show ?thesis by simp
  qed
qed


lemma restoreTunnelStates_unfold:
  assumes "content (pidStore tm) = Stored pids" "distinct (map fst pids)"
  shows "restoreTunnelStates env tm =
           fold (restoreEntry env) (filter (alive env) pids)
             (tm\<lparr> pidStore := snd (LoadPids env (pidStore tm)) \<rparr>)"
  by (simp add: restoreTunnelStates_def LoadPids_Stored [OF assms(2,1)])

lemma restoreTunnelStates_registry:
  assumes "content (pidStore tm) = Stored pids" and "distinct (map fst pids)"
  shows "(map_of (tunnels tm) k = None \<longrightarrow> map_of (tunnels (restoreTunnelStates env tm)) k = None)
       \<and> (map_of pids k = Some info \<and> map_of (tunnels tm) k = Some t
            \<and> isProcessRunning env (pid info) \<longrightarrow>
            map_of (tunnels (restoreTunnelStates env tm)) k =
              Some (t\<lparr> Status := StatusRunning, PID := pid info,
                       StartedAt := Some (case parseRFC3339 env (started info) of
                                            Some startTime \<Rightarrow> startTime | None \<Rightarrow> now env) \<rparr>))"
proof -
  define tm1 where "tm1 = tm\<lparr> pidStore := snd (LoadPids env (pidStore tm)) \<rparr>"
  define cleaned where "cleaned = filter (alive env) pids"
  have r: "restoreTunnelStates env tm = fold (restoreEntry env) cleaned tm1"
    using restoreTunnelStates_unfold [OF assms] by (simp add: tm1_def cleaned_def)
  have t1: "tunnels tm1 = tunnels tm" by (simp add: tm1_def)
  have dc: "distinct (map fst cleaned)"
    using assms(2) by (simp add: cleaned_def distinct_filter_keys)
  have none: "map_of (tunnels (restoreTunnelStates env tm)) k = None"
    if "map_of (tunnels tm) k = None"
    using fold_restore_tunnels_None [of tm1 k env cleaned] that t1 by (simp add: r)
  have running: "map_of (tunnels (restoreTunnelStates env tm)) k =
              Some (t\<lparr> Status := StatusRunning, PID := pid info,
                       StartedAt := Some (case parseRFC3339 env (started info) of
                                            Some startTime \<Rightarrow> startTime | None \<Rightarrow> now env) \<rparr>)"
    if p: "map_of pids k = Some info" and s: "map_of (tunnels tm) k = Some t"
      and a: "isProcessRunning env (pid info)"
  proof -
    have "(k, info) \<in> set pids" using p by (rule map_of_SomeD)
    then have m: "(k, info) \<in> set cleaned" using a by (simp add: cleaned_def alive_def)
    have s1: "map_of (tunnels tm1) k = Some t" using s t1 by simp
    from fold_restore_running [OF a dc m s1] show ?thesis by (simp add: r)
  qed
  from none running show ?thesis by blast
qed

text \<open>
  What \<^verbatim>\<open>RemovePid\<close> leaves in the file when the file can be written: the running entries
  without the one removed, and no file when nothing is left.
\<close>

lemma RemovePid_content:
  assumes io: "pid_io_ok env" and wf: "wf_file (content fps)"
  shows "content (snd (RemovePid env k fps)) =
           (if AList.delete k (filter (alive env) (ledger (content fps))) = [] then NoFile
            else Stored (AList.delete k (filter (alive env) (ledger (content fps)))))"
proof (cases "content fps")
  case NoFile
  then show ?thesis
    by (simp add: RemovePid_def LoadPids_def SavePids_ok [OF io])
next
  case (Stored pids)
  then have d: "distinct (map fst pids)" using wf by (simp add: wf_file_def)
  show ?thesis
    by (simp add: Stored RemovePid_def LoadPids_Stored [OF d Stored] SavePids_ok [OF io] Let_def)
next
  case (Unreadable e)
  then show ?thesis using wf by (simp add: wf_file_def)
next
  case (Unparsable e)
  then show ?thesis using wf by (simp add: wf_file_def)
qed

lemma restoreEntry_removes_orphan:
  assumes "pid_io_ok env" and "wf_file (content (pidStore tm))" and "map_of (tunnels tm) k = None"
  shows "map_of (ledger (content (pidStore (restoreEntry env (k, info) tm)))) k = None"
  using RemovePid_content [OF assms(1,2), of k] assms(3)
  by (simp add: restoreEntry_def delete_conv')

text \<open>
  Claim C6. The registry is reconciled as the claim says: an identifier without a tunnel
  gets none, and a tunnel whose ledger entry has a running process is set to \<^verbatim>\<open>running\<close>
  with the process id of the ledger (lemma \<open>restoreTunnelStates_registry\<close>). The ledger is
  not: with "web" running and configured, "db" running and not configured, and "api" dead,
  the loop removes "db" from the file, but the goroutine that the first \<^verbatim>\<open>LoadPids\<close>
  started to save the map without "api" still holds "db"; when it runs after the loop, and
  last of the two goroutines, the file holds "db" again, with no goroutine left to run.
\<close>

theorem reconciliation_orphan_comes_back:
  "map_of (tunnels restarted_manager) ''db'' = None
 \<and> isProcessRunning api_dead_env 4243
 \<and> content (pidStore (restoreTunnelStates api_dead_env restarted_manager))
     = Stored [(''web'', \<lparr> pid = 4242, started = ''2025-12-31T23:59:00Z'', tunnelId = ''web'' \<rparr>)]
 \<and> saving (pidStore (restoreTunnelStates api_dead_env restarted_manager))
     = [\<lparr> Pids = [(''web'', \<lparr> pid = 4242, started = ''2025-12-31T23:59:00Z'', tunnelId = ''web'' \<rparr>),
                  (''db'', \<lparr> pid = 4243, started = ''2026-01-01T00:00:01Z'', tunnelId = ''db'' \<rparr>)] \<rparr>,
        \<lparr> Pids = [(''web'', \<lparr> pid = 4242, started = ''2025-12-31T23:59:00Z'', tunnelId = ''web'' \<rparr>)] \<rparr>]
 \<and> runSaving api_dead_env 0
       (runSaving api_dead_env 1 (pidStore (restoreTunnelStates api_dead_env restarted_manager)))
     = \<lparr> content =
           Stored [(''web'', \<lparr> pid = 4242, started = ''2025-12-31T23:59:00Z'', tunnelId = ''web'' \<rparr>),
                   (''db'', \<lparr> pid = 4243, started = ''2026-01-01T00:00:01Z'', tunnelId = ''db'' \<rparr>)],
         saving = [] \<rparr>
 \<and> map_of (tunnels (restoreTunnelStates api_dead_env restarted_manager)) ''db'' = None"
  by (simp add: restoreTunnelStates_def restoreEntry_def RemovePid_def LoadPids_def cleanPids_def
        SavePids_def shareMap_def runSaving_def isProcessRunning_def Let_def
        restarted_manager_def web_manager_def three_pids_def api_dead_env_def ok_env_def)

subsection \<open>The event queue\<close>

lemma trySend_offered: "trySend ev c = offered ev c"
  by (simp add: trySend_def chan_send_def offered_def)

lemma statusChanges_notify:
  "statusChanges (notifyStatusChange i old new err tm) =
     offered \<lparr> TunnelID = i, OldStatus = old, NewStatus = new, Error = err \<rparr> (statusChanges tm)"
  by (simp add: notifyStatusChange_def trySend_offered)

lemma offered_capacity: "capacity (offered v c) = capacity c"
  by (simp add: offered_def)

lemma offered_length: "length (buffer c) \<le> capacity c \<Longrightarrow> length (buffer (offered v c)) \<le> capacity c"
  by (simp add: offered_def)

lemma queue_ok_notify: "queue_ok tm \<Longrightarrow> queue_ok (notifyStatusChange i old new err tm)"
  by (simp add: queue_ok_def statusChanges_notify offered_def)

lemma queue_ok_cong: "statusChanges tm' = statusChanges tm \<Longrightarrow> queue_ok tm \<Longrightarrow> queue_ok tm'"
  by (simp add: queue_ok_def)

text \<open>Construction and reconciliation leave the queue alone.\<close>

lemma statusChanges_fold_load:
  "statusChanges (fold (\<lambda>tc tm. tm\<lparr> tunnels := AList.update (TunnelConfig.ID tc) (tunnelOfConfig tc) (tunnels tm) \<rparr>) tcs tm)
     = statusChanges tm"
  by (induction tcs arbitrary: tm) simp_all

lemma statusChanges_loadTunnels: "statusChanges (loadTunnels tm) = statusChanges tm"
  by (simp add: loadTunnels_def statusChanges_fold_load split: sum.splits)

lemma statusChanges_restoreEntry: "statusChanges (restoreEntry env e tm) = statusChanges tm"
  by (simp add: restoreEntry_def Let_def split: prod.splits option.splits)

lemma statusChanges_fold_restore:
  "statusChanges (fold (restoreEntry env) es tm) = statusChanges tm"
  by (induction es arbitrary: tm) (simp_all add: statusChanges_restoreEntry)

lemma statusChanges_restoreTunnelStates: "statusChanges (restoreTunnelStates env tm) = statusChanges tm"
  by (simp add: restoreTunnelStates_def statusChanges_fold_restore split: prod.splits sum.splits)

lemma statusChanges_NewTunnelManager:
  "statusChanges (NewTunnelManager env cfg pids dbg) = \<lparr> capacity = 100, buffer = [] \<rparr>"
  by (simp add: NewTunnelManager_def Let_def statusChanges_restoreTunnelStates
        statusChanges_loadTunnels make_chan_def)

text \<open>\<^verbatim>\<open>StartTunnel\<close>: two transitions, two events.\<close>

lemma StartTunnel_events:
  assumes t: "map_of (tunnels tm) i = Some t" and nr: "Status t \<noteq> StatusRunning"
  shows "(fst (StartTunnel env i tm) = None \<longrightarrow>
            statusChanges (snd (StartTunnel env i tm)) =
              offered \<lparr> TunnelID = i, OldStatus = StatusConnecting, NewStatus = StatusRunning, Error = None \<rparr>
                (offered \<lparr> TunnelID = i, OldStatus = Status t, NewStatus = StatusConnecting, Error = None \<rparr>
                   (statusChanges tm))
          \<and> map_option Status (map_of (tunnels (snd (StartTunnel env i tm))) i) = Some StatusRunning)
       \<and> (fst (StartTunnel env i tm) \<noteq> None \<longrightarrow>
            (\<exists>err. fst (StartTunnel env i tm) = Some (Wrap ''failed to start tunnel'' err)
               \<and> statusChanges (snd (StartTunnel env i tm)) =
                   offered \<lparr> TunnelID = i, OldStatus = StatusConnecting, NewStatus = StatusError, Error = Some err \<rparr>
                     (offered \<lparr> TunnelID = i, OldStatus = Status t, NewStatus = StatusConnecting, Error = None \<rparr>
                        (statusChanges tm))
               \<and> map_option Status (map_of (tunnels (snd (StartTunnel env i tm))) i) = Some StatusError))"
proof -
  define t1 where "t1 = t\<lparr> Status := StatusConnecting \<rparr>"
  define tm1 where "tm1 = notifyStatusChange i (Status t) StatusConnecting None
                  (tm\<lparr> tunnels := AList.update i t1 (tunnels tm) \<rparr>)"
  have b: "StartTunnel_begin i tm = Inr (t1, tm1)"
    using StartTunnel_begin_Inr [OF t nr] by (simp add: t1_def tm1_def)
  have q1: "statusChanges tm1 =
      offered \<lparr> TunnelID = i, OldStatus = Status t, NewStatus = StatusConnecting, Error = None \<rparr>
        (statusChanges tm)"
    by (simp add: tm1_def statusChanges_notify)
  obtain r t' pm' where c: "Connect env t1 (processManager tm1) = (r, t', pm')"
    by (cases "Connect env t1 (processManager tm1)")
  show ?thesis
  proof (cases r)
    case (Inl err)
    then show ?thesis
      by (simp add: StartTunnel_def b StartTunnel_connect_def c Let_def statusChanges_notify
            tunnels_notify update_conv' q1)
  next
    case (Inr pe)
    then show ?thesis
      by (simp add: StartTunnel_def b StartTunnel_connect_def c Let_def statusChanges_notify
            tunnels_notify update_conv' q1 split: option.splits)
  qed
qed

lemma StartTunnel_no_transition:
  "map_of (tunnels tm) i = None \<or> map_option Status (map_of (tunnels tm) i) = Some StatusRunning
     \<Longrightarrow> snd (StartTunnel env i tm) = tm"
  by (auto simp: StartTunnel_def StartTunnel_begin_def)

lemma queue_ok_StartTunnel: "queue_ok tm \<Longrightarrow> queue_ok (snd (StartTunnel env i tm))"
proof (cases "map_of (tunnels tm) i")
  case None
  assume "queue_ok tm"
  then show ?thesis using StartTunnel_no_transition [of tm i env] None by simp
next
  case (Some t)
  assume q: "queue_ok tm"
  show ?thesis
  proof (cases "Status t = StatusRunning")
    case True
    then show ?thesis using q StartTunnel_no_transition [of tm i env] Some by simp
  next
    case False
    obtain e1 e2 where "statusChanges (snd (StartTunnel env i tm)) = offered e2 (offered e1 (statusChanges tm))"
      using StartTunnel_events [OF Some False, of env]
      by (cases "fst (StartTunnel env i tm)") auto
    then show ?thesis using q by (simp add: queue_ok_def offered_def)
  qed
qed

text \<open>\<^verbatim>\<open>StopTunnel\<close>, the exit monitor and \<^verbatim>\<open>StopAllTunnels\<close>: one transition per tunnel, one event.\<close>

lemma StopTunnel_events:
  assumes "map_of (tunnels tm) i = Some t" and "Status t = StatusRunning"
  shows "fst (StopTunnel env i tm) = None
       \<and> statusChanges (snd (StopTunnel env i tm)) =
           offered \<lparr> TunnelID = i, OldStatus = StatusRunning, NewStatus = StatusStopped, Error = None \<rparr>
             (statusChanges tm)
       \<and> map_option Status (map_of (tunnels (snd (StopTunnel env i tm))) i) = Some StatusStopped"
  using assms
  by (simp add: StopTunnel_def Let_def statusChanges_notify tunnels_notify update_conv')

lemma StopTunnel_no_transition:
  "map_option Status (map_of (tunnels tm) i) \<noteq> Some StatusRunning \<Longrightarrow> snd (StopTunnel env i tm) = tm"
  by (auto simp: StopTunnel_def split: option.splits)

lemma queue_ok_StopTunnel: "queue_ok tm \<Longrightarrow> queue_ok (snd (StopTunnel env i tm))"
  by (auto simp: StopTunnel_def Let_def queue_ok_def statusChanges_notify offered_def
           split: option.splits)

lemma monitorTunnel_exit_events:
  assumes "map_of (tunnels tm) i = Some t"
  shows "(Status t = StatusRunning \<longrightarrow>
            statusChanges (monitorTunnel_exit env i tm) =
              offered \<lparr> TunnelID = i, OldStatus = StatusRunning, NewStatus = StatusStopped,
                        Error = LastError t \<rparr> (statusChanges tm)
          \<and> map_option Status (map_of (tunnels (monitorTunnel_exit env i tm)) i) = Some StatusStopped)
       \<and> (Status t \<noteq> StatusRunning \<longrightarrow>
            statusChanges (monitorTunnel_exit env i tm) = statusChanges tm
          \<and> map_option Status (map_of (tunnels (monitorTunnel_exit env i tm)) i) = Some (Status t))"
  using assms
  by (simp add: monitorTunnel_exit_def Let_def statusChanges_notify tunnels_notify update_conv'
        StatusRunning_def StatusStopped_def)

lemma queue_ok_monitorTunnel_exit: "queue_ok tm \<Longrightarrow> queue_ok (monitorTunnel_exit env i tm)"
  by (auto simp: monitorTunnel_exit_def Let_def queue_ok_def statusChanges_notify offered_def
           split: option.splits)

lemma statusChanges_stopEntry:
  "statusChanges (stopEntry env e tm) =
     (case e of (k, t) \<Rightarrow>
        if Status t = StatusRunning
        then offered \<lparr> TunnelID = k, OldStatus = StatusRunning, NewStatus = StatusStopped, Error = None \<rparr>
               (statusChanges tm)
        else statusChanges tm)"
  by (simp add: stopEntry_def Let_def statusChanges_notify split: prod.splits)

lemma statusChanges_fold_stop:
  "statusChanges (fold (stopEntry env) es tm) =
     fold (\<lambda>(k, t) c.
             if Status t = StatusRunning
             then offered \<lparr> TunnelID = k, OldStatus = StatusRunning, NewStatus = StatusStopped, Error = None \<rparr> c
             else c) es (statusChanges tm)"
  by (induction es arbitrary: tm) (simp_all add: statusChanges_stopEntry split: prod.splits)

lemma tunnels_stopEntry:
  "tunnels (stopEntry env (k, t) tm) =
     (if Status t = StatusRunning
      then AList.update k (t\<lparr> Status := StatusStopped, process := None, PID := 0, StartedAt := None \<rparr>)
             (tunnels tm)
      else tunnels tm)"
  by (simp add: stopEntry_def Let_def tunnels_notify)

lemma fold_stop_other:
  "k \<notin> fst ` set es \<Longrightarrow> map_of (tunnels (fold (stopEntry env) es tm)) k = map_of (tunnels tm) k"
proof (induction es arbitrary: tm)
  case Nil
  then show ?case by simp
next
  case (Cons e es)
  obtain k' t' where e: "e = (k', t')" by (cases e)
  have "k \<noteq> k'" using Cons.prems e by auto
  then have "map_of (tunnels (stopEntry env e tm)) k = map_of (tunnels tm) k"
    by (simp add: e tunnels_stopEntry update_conv')
  moreover have "k \<notin> fst ` set es" using Cons.prems by simp
  ultimately show ?case using Cons.IH [of "stopEntry env e tm"] by simp
qed

lemma fold_stop_status:
  assumes "distinct (map fst es)" and "(k, t) \<in> set es"
  shows "map_option Status (map_of (tunnels (fold (stopEntry env) es tm)) k) =
           (if Status t = StatusRunning then Some StatusStopped
            else map_option Status (map_of (tunnels tm) k))"
  using assms
proof (induction es arbitrary: tm)
  case Nil
  then show ?case by simp
next
  case (Cons e es)
  show ?case
  proof (cases "e = (k, t)")
    case True
    then have "k \<notin> fst ` set es" using Cons.prems(1) by auto
    then have "map_of (tunnels (fold (stopEntry env) es (stopEntry env e tm))) k
                 = map_of (tunnels (stopEntry env e tm)) k"
      by (rule fold_stop_other)
    then show ?thesis
      by (simp add: True tunnels_stopEntry update_conv')
  next
    case False
    then have m: "(k, t) \<in> set es" using Cons.prems(2) by simp
    obtain k' t' where e: "e = (k', t')" by (cases e)
    have "k' \<notin> fst ` set es" using Cons.prems(1) e by auto
    then have "k \<noteq> k'" using m by force
    then have s: "map_of (tunnels (stopEntry env e tm)) k = map_of (tunnels tm) k"
      by (simp add: e tunnels_stopEntry update_conv')
    have d: "distinct (map fst es)" using Cons.prems(1) by simp
    show ?thesis using Cons.IH [OF d m, of "stopEntry env e tm"] s by simp
  qed
qed

lemma queue_ok_fold_stop: "queue_ok tm \<Longrightarrow> queue_ok (fold (stopEntry env) es tm)"
proof (induction es arbitrary: tm)
  case Nil
  then show ?case by simp
next
  case (Cons e es)
  have "queue_ok (stopEntry env e tm)"
    using Cons.prems
    by (auto simp: queue_ok_def statusChanges_stopEntry offered_def split: prod.splits)
  then show ?case using Cons.IH by simp
qed

text \<open>
  Claim C7, as the code has it. The queue of status changes is created empty with capacity
  100, and no operation that changes a status makes it longer than that. A send would block
  exactly when the queue is full; \<^verbatim>\<open>notifyStatusChange\<close> then leaves the registry as it was, and
  appends the event with its identifier, old status, new status and error otherwise. The
  transitions made by \<^verbatim>\<open>StartTunnel\<close> (to \<^verbatim>\<open>connecting\<close>, then to \<^verbatim>\<open>running\<close> or to \<^verbatim>\<open>error\<close> with
  the cause), by \<^verbatim>\<open>StopTunnel\<close>, by the exit monitor and by \<^verbatim>\<open>StopAllTunnels\<close> (from \<^verbatim>\<open>running\<close> to
  \<^verbatim>\<open>stopped\<close>) each offer their event to the queue in this way, and these operations offer
  nothing when they change no status.
\<close>

theorem statusChanges_events:
  "statusChanges (NewTunnelManager env cfg pids dbg) = \<lparr> capacity = 100, buffer = [] \<rparr>
 \<and> (queue_ok tm \<longrightarrow>
       queue_ok (notifyStatusChange i old new err tm)
     \<and> queue_ok (snd (StartTunnel env i tm))
     \<and> queue_ok (snd (StopTunnel env i tm))
     \<and> queue_ok (monitorTunnel_exit env i tm)
     \<and> queue_ok (StopAllTunnels_update env tm)
     \<and> queue_ok (restoreTunnelStates env tm))
 \<and> ((chan_send ev (statusChanges tm) = None)
       = (capacity (statusChanges tm) \<le> length (buffer (statusChanges tm))))
 \<and> (capacity (statusChanges tm) \<le> length (buffer (statusChanges tm)) \<longrightarrow>
       notifyStatusChange i old new err tm = tm)
 \<and> (length (buffer (statusChanges tm)) < capacity (statusChanges tm) \<longrightarrow>
       notifyStatusChange i old new err tm =
         tm\<lparr> statusChanges := (statusChanges tm)\<lparr> buffer := buffer (statusChanges tm) @
                 [\<lparr> TunnelID = i, OldStatus = old, NewStatus = new, Error = err \<rparr>] \<rparr> \<rparr>)
 \<and> offered ev c = (if capacity c \<le> length (buffer c) then c else c\<lparr> buffer := buffer c @ [ev] \<rparr>)
 \<and> (map_of (tunnels tm) i = None \<longrightarrow>
       snd (StartTunnel env i tm) = tm \<and> snd (StopTunnel env i tm) = tm
     \<and> monitorTunnel_exit env i tm = tm)
 \<and> (map_of (tunnels tm) i = Some t \<and> Status t \<noteq> StatusRunning \<longrightarrow>
       (fst (StartTunnel env i tm) = None \<longrightarrow>
          statusChanges (snd (StartTunnel env i tm)) =
            offered \<lparr> TunnelID = i, OldStatus = StatusConnecting, NewStatus = StatusRunning, Error = None \<rparr>
              (offered \<lparr> TunnelID = i, OldStatus = Status t, NewStatus = StatusConnecting, Error = None \<rparr>
                 (statusChanges tm))
        \<and> map_option Status (map_of (tunnels (snd (StartTunnel env i tm))) i) = Some StatusRunning)
     \<and> (fst (StartTunnel env i tm) \<noteq> None \<longrightarrow>
          (\<exists>cause. fst (StartTunnel env i tm) = Some (Wrap ''failed to start tunnel'' cause)
             \<and> statusChanges (snd (StartTunnel env i tm)) =
                 offered \<lparr> TunnelID = i, OldStatus = StatusConnecting, NewStatus = StatusError,
                           Error = Some cause \<rparr>
                   (offered \<lparr> TunnelID = i, OldStatus = Status t, NewStatus = StatusConnecting, Error = None \<rparr>
                      (statusChanges tm))
             \<and> map_option Status (map_of (tunnels (snd (StartTunnel env i tm))) i) = Some StatusError))
     \<and> snd (StopTunnel env i tm) = tm
     \<and> statusChanges (monitorTunnel_exit env i tm) = statusChanges tm
     \<and> map_option Status (map_of (tunnels (monitorTunnel_exit env i tm)) i) = Some (Status t))
 \<and> (map_of (tunnels tm) i = Some t \<and> Status t = StatusRunning \<longrightarrow>
       snd (StartTunnel env i tm) = tm
     \<and> fst (StopTunnel env i tm) = None
     \<and> statusChanges (snd (StopTunnel env i tm)) =
         offered \<lparr> TunnelID = i, OldStatus = StatusRunning, NewStatus = StatusStopped, Error = None \<rparr>
           (statusChanges tm)
     \<and> map_option Status (map_of (tunnels (snd (StopTunnel env i tm))) i) = Some StatusStopped
     \<and> statusChanges (monitorTunnel_exit env i tm) =
         offered \<lparr> TunnelID = i, OldStatus = StatusRunning, NewStatus = StatusStopped,
                   Error = LastError t \<rparr> (statusChanges tm)
     \<and> map_option Status (map_of (tunnels (monitorTunnel_exit env i tm)) i) = Some StatusStopped)
 \<and> statusChanges (StopAllTunnels_update env tm) =
     fold (\<lambda>(k, u) q.
             if Status u = StatusRunning
             then offered \<lparr> TunnelID = k, OldStatus = StatusRunning, NewStatus = StatusStopped, Error = None \<rparr> q
             else q) (tunnels tm) (statusChanges tm)
 \<and> (distinct (map fst (tunnels tm)) \<and> (i, t) \<in> set (tunnels tm) \<longrightarrow>
       map_option Status (map_of (tunnels (StopAllTunnels_update env tm)) i) =
         Some (if Status t = StatusRunning then StatusStopped else Status t))"
proof -
  have c1: "statusChanges (NewTunnelManager env cfg pids dbg) = \<lparr> capacity = 100, buffer = [] \<rparr>"
    by (rule statusChanges_NewTunnelManager)
  have c2: "queue_ok tm \<longrightarrow>
       queue_ok (notifyStatusChange i old new err tm)
     \<and> queue_ok (snd (StartTunnel env i tm))
     \<and> queue_ok (snd (StopTunnel env i tm))
     \<and> queue_ok (monitorTunnel_exit env i tm)
     \<and> queue_ok (StopAllTunnels_update env tm)
     \<and> queue_ok (restoreTunnelStates env tm)"
    using queue_ok_cong [OF statusChanges_restoreTunnelStates, of tm env]
    by (simp add: queue_ok_notify queue_ok_StartTunnel queue_ok_StopTunnel
          queue_ok_monitorTunnel_exit queue_ok_fold_stop StopAllTunnels_update_def)
  have c3: "(chan_send ev (statusChanges tm) = None)
       = (capacity (statusChanges tm) \<le> length (buffer (statusChanges tm)))"
    by (simp add: chan_send_def)
  have c4: "capacity (statusChanges tm) \<le> length (buffer (statusChanges tm)) \<longrightarrow>
        notifyStatusChange i old new err tm = tm"
    by (simp add: notifyStatusChange_def trySend_def chan_send_def)
  have c5: "length (buffer (statusChanges tm)) < capacity (statusChanges tm) \<longrightarrow>
        notifyStatusChange i old new err tm =
          tm\<lparr> statusChanges := (statusChanges tm)\<lparr> buffer := buffer (statusChanges tm) @
                  [\<lparr> TunnelID = i, OldStatus = old, NewStatus = new, Error = err \<rparr>] \<rparr> \<rparr>"
    by (simp add: notifyStatusChange_def trySend_def chan_send_def)
  have c6: "offered ev c = (if capacity c \<le> length (buffer c) then c else c\<lparr> buffer := buffer c @ [ev] \<rparr>)"
    by (simp add: offered_def)
  have c7: "map_of (tunnels tm) i = None \<longrightarrow>
       snd (StartTunnel env i tm) = tm \<and> snd (StopTunnel env i tm) = tm
     \<and> monitorTunnel_exit env i tm = tm"
    by (simp add: StartTunnel_no_transition StopTunnel_no_transition monitorTunnel_exit_def)
  have c8: "map_of (tunnels tm) i = Some t \<and> Status t \<noteq> StatusRunning \<longrightarrow>
       (fst (StartTunnel env i tm) = None \<longrightarrow>
          statusChanges (snd (StartTunnel env i tm)) =
            offered \<lparr> TunnelID = i, OldStatus = StatusConnecting, NewStatus = StatusRunning, Error = None \<rparr>
              (offered \<lparr> TunnelID = i, OldStatus = Status t, NewStatus = StatusConnecting, Error = None \<rparr>
                 (statusChanges tm))
        \<and> map_option Status (map_of (tunnels (snd (StartTunnel env i tm))) i) = Some StatusRunning)
     \<and> (fst (StartTunnel env i tm) \<noteq> None \<longrightarrow>
          (\<exists>cause. fst (StartTunnel env i tm) = Some (Wrap ''failed to start tunnel'' cause)
             \<and> statusChanges (snd (StartTunnel env i tm)) =
                 offered \<lparr> TunnelID = i, OldStatus = StatusConnecting, NewStatus = StatusError,
                           Error = Some cause \<rparr>
                   (offered \<lparr> TunnelID = i, OldStatus = Status t, NewStatus = StatusConnecting, Error = None \<rparr>
                      (statusChanges tm))
             \<and> map_option Status (map_of (tunnels (snd (StartTunnel env i tm))) i) = Some StatusError))
     \<and> snd (StopTunnel env i tm) = tm
     \<and> statusChanges (monitorTunnel_exit env i tm) = statusChanges tm
     \<and> map_option Status (map_of (tunnels (monitorTunnel_exit env i tm)) i) = Some (Status t)"
  proof (intro impI, elim conjE)
    assume t: "map_of (tunnels tm) i = Some t" and nr: "Status t \<noteq> StatusRunning"
    have "snd (StopTunnel env i tm) = tm"
      using StopTunnel_no_transition [of tm i env] t nr by simp
    then show "(fst (StartTunnel env i tm) = None \<longrightarrow>
          statusChanges (snd (StartTunnel env i tm)) =
            offered \<lparr> TunnelID = i, OldStatus = StatusConnecting, NewStatus = StatusRunning, Error = None \<rparr>
              (offered \<lparr> TunnelID = i, OldStatus = Status t, NewStatus = StatusConnecting, Error = None \<rparr>
                 (statusChanges tm))
        \<and> map_option Status (map_of (tunnels (snd (StartTunnel env i tm))) i) = Some StatusRunning)
     \<and> (fst (StartTunnel env i tm) \<noteq> None \<longrightarrow>
          (\<exists>cause. fst (StartTunnel env i tm) = Some (Wrap ''failed to start tunnel'' cause)
             \<and> statusChanges (snd (StartTunnel env i tm)) =
                 offered \<lparr> TunnelID = i, OldStatus = StatusConnecting, NewStatus = StatusError,
                           Error = Some cause \<rparr>
                   (offered \<lparr> TunnelID = i, OldStatus = Status t, NewStatus = StatusConnecting, Error = None \<rparr>
                      (statusChanges tm))
             \<and> map_option Status (map_of (tunnels (snd (StartTunnel env i tm))) i) = Some StatusError))
     \<and> snd (StopTunnel env i tm) = tm
     \<and> statusChanges (monitorTunnel_exit env i tm) = statusChanges tm
     \<and> map_option Status (map_of (tunnels (monitorTunnel_exit env i tm)) i) = Some (Status t)"
      using StartTunnel_events [OF t nr, of env] monitorTunnel_exit_events [OF t, of env] nr
      by blast
  qed
  have c9: "map_of (tunnels tm) i = Some t \<and> Status t = StatusRunning \<longrightarrow>
       snd (StartTunnel env i tm) = tm
     \<and> fst (StopTunnel env i tm) = None
     \<and> statusChanges (snd (StopTunnel env i tm)) =
         offered \<lparr> TunnelID = i, OldStatus = StatusRunning, NewStatus = StatusStopped, Error = None \<rparr>
           (statusChanges tm)
     \<and> map_option Status (map_of (tunnels (snd (StopTunnel env i tm))) i) = Some StatusStopped
     \<and> statusChanges (monitorTunnel_exit env i tm) =
         offered \<lparr> TunnelID = i, OldStatus = StatusRunning, NewStatus = StatusStopped,
                   Error = LastError t \<rparr> (statusChanges tm)
     \<and> map_option Status (map_of (tunnels (monitorTunnel_exit env i tm)) i) = Some StatusStopped"
  proof (intro impI, elim conjE)
    assume t: "map_of (tunnels tm) i = Some t" and r: "Status t = StatusRunning"
    have "snd (StartTunnel env i tm) = tm"
      using StartTunnel_no_transition [of tm i env] t r by simp
    then show "snd (StartTunnel env i tm) = tm
     \<and> fst (StopTunnel env i tm) = None
     \<and> statusChanges (snd (StopTunnel env i tm)) =
         offered \<lparr> TunnelID = i, OldStatus = StatusRunning, NewStatus = StatusStopped, Error = None \<rparr>
           (statusChanges tm)
     \<and> map_option Status (map_of (tunnels (snd (StopTunnel env i tm))) i) = Some StatusStopped
     \<and> statusChanges (monitorTunnel_exit env i tm) =
         offered \<lparr> TunnelID = i, OldStatus = StatusRunning, NewStatus = StatusStopped,
                   Error = LastError t \<rparr> (statusChanges tm)
     \<and> map_option Status (map_of (tunnels (monitorTunnel_exit env i tm)) i) = Some StatusStopped"
      using StopTunnel_events [OF t r, of env] monitorTunnel_exit_events [OF t, of env] r
      by blast
  qed
  have c10: "statusChanges (StopAllTunnels_update env tm) =
     fold (\<lambda>(k, u) q.
             if Status u = StatusRunning
             then offered \<lparr> TunnelID = k, OldStatus = StatusRunning, NewStatus = StatusStopped, Error = None \<rparr> q
             else q) (tunnels tm) (statusChanges tm)"
    by (simp add: StopAllTunnels_update_def statusChanges_fold_stop)
  have c11: "distinct (map fst (tunnels tm)) \<and> (i, t) \<in> set (tunnels tm) \<longrightarrow>
       map_option Status (map_of (tunnels (StopAllTunnels_update env tm)) i) =
         Some (if Status t = StatusRunning then StatusStopped else Status t)"
  proof (intro impI, elim conjE)
    assume d: "distinct (map fst (tunnels tm))" and m: "(i, t) \<in> set (tunnels tm)"
    have "map_of (tunnels tm) i = Some t" using d m by simp
    then show "map_option Status (map_of (tunnels (StopAllTunnels_update env tm)) i) =
         Some (if Status t = StatusRunning then StatusStopped else Status t)"
      using fold_stop_status [OF d m, of env tm] by (simp add: StopAllTunnels_update_def)
  qed
  show ?thesis
    by (intro conjI) (fact c1 c2 c3 c4 c5 c6 c7 c8 c9 c10 c11)+
qed

lemma full_manager_full:
  "capacity (statusChanges full_manager) \<le> length (buffer (statusChanges full_manager))"
  by (simp add: full_manager_def)

lemma offered_full_manager: "offered e (statusChanges full_manager) = statusChanges full_manager"
  using full_manager_full by (simp add: offered_def)

lemma web_manager_web: "map_of (tunnels web_manager) ''web'' = Some web_tunnel"
  by (simp add: web_manager_def)

lemma full_manager_web: "map_of (tunnels full_manager) ''web'' = Some web_tunnel"
  by (simp add: full_manager_def web_manager_def)

lemma running_manager_web:
  "map_of (tunnels running_manager) ''web'' = Some (web_tunnel\<lparr> Status := StatusRunning, PID := 4242 \<rparr>)"
  by (simp add: running_manager_def)

lemma web_tunnel_stopped: "Status web_tunnel = StatusStopped"
  by (simp add: web_tunnel_def)

lemma web_tunnel_not_running: "Status web_tunnel \<noteq> StatusRunning"
  by (simp add: web_tunnel_def StatusStopped_def StatusRunning_def)

lemma StartTunnel_web_ok: "fst (StartTunnel ok_env ''web'' web_manager) = None"
  by (simp add: StartTunnel_def StartTunnel_begin_def StartTunnel_connect_def Connect_def Validate_def
        notifyStatusChange_def NewProcessManager_def Let_def web_manager_def web_tunnel_def ok_env_def
        LocalForward_def StatusStopped_def StatusRunning_def StatusConnecting_def
        split: option.splits)

lemma StartTunnel_web_no_ssh:
  "fst (StartTunnel no_ssh_env ''web'' web_manager) =
     Some (Wrap ''failed to start tunnel''
            (Wrap ''failed to start SSH process'' (OSError ''executable file not found'')))"
  by (simp add: StartTunnel_def StartTunnel_begin_def StartTunnel_connect_def Connect_def Validate_def
        notifyStatusChange_def NewProcessManager_def Let_def web_manager_def web_tunnel_def ok_env_def
        no_ssh_env_def LocalForward_def StatusStopped_def StatusRunning_def StatusConnecting_def)

theorem statusChanges_events_witness:
  "queue_ok web_manager
 \<and> map_of (tunnels web_manager) ''web'' = Some web_tunnel
 \<and> Status web_tunnel = StatusStopped
 \<and> fst (StartTunnel ok_env ''web'' web_manager) = None
 \<and> statusChanges (snd (StartTunnel ok_env ''web'' web_manager)) =
     \<lparr> capacity = 100,
       buffer = [\<lparr> TunnelID = ''web'', OldStatus = StatusStopped, NewStatus = StatusConnecting, Error = None \<rparr>,
                 \<lparr> TunnelID = ''web'', OldStatus = StatusConnecting, NewStatus = StatusRunning, Error = None \<rparr>] \<rparr>
 \<and> statusChanges (snd (StartTunnel no_ssh_env ''web'' web_manager)) =
     \<lparr> capacity = 100,
       buffer = [\<lparr> TunnelID = ''web'', OldStatus = StatusStopped, NewStatus = StatusConnecting, Error = None \<rparr>,
                 \<lparr> TunnelID = ''web'', OldStatus = StatusConnecting, NewStatus = StatusError,
                   Error = Some (Wrap ''failed to start SSH process''
                                  (OSError ''executable file not found'')) \<rparr>] \<rparr>
 \<and> map_of (tunnels running_manager) ''web'' = Some (web_tunnel\<lparr> Status := StatusRunning, PID := 4242 \<rparr>)
 \<and> statusChanges (snd (StopTunnel ok_env ''web'' running_manager)) =
     \<lparr> capacity = 100,
       buffer = [\<lparr> TunnelID = ''web'', OldStatus = StatusRunning, NewStatus = StatusStopped, Error = None \<rparr>] \<rparr>
 \<and> statusChanges (monitorTunnel_exit ok_env ''web'' running_manager) =
     \<lparr> capacity = 100,
       buffer = [\<lparr> TunnelID = ''web'', OldStatus = StatusRunning, NewStatus = StatusStopped, Error = None \<rparr>] \<rparr>
 \<and> statusChanges (StopAllTunnels_update ok_env running_manager) =
     \<lparr> capacity = 100,
       buffer = [\<lparr> TunnelID = ''web'', OldStatus = StatusRunning, NewStatus = StatusStopped, Error = None \<rparr>] \<rparr>
 \<and> map_option Status (map_of (tunnels (StopAllTunnels_update ok_env running_manager)) ''web'')
     = Some StatusStopped
 \<and> queue_ok full_manager
 \<and> capacity (statusChanges full_manager) \<le> length (buffer (statusChanges full_manager))
 \<and> notifyStatusChange ''web'' StatusConnecting StatusRunning None full_manager = full_manager
 \<and> statusChanges (snd (StartTunnel ok_env ''web'' full_manager)) = statusChanges full_manager
 \<and> queue_ok (snd (StartTunnel ok_env ''web'' full_manager))"
proof -
  note w = statusChanges_events [where env = ok_env and tm = web_manager and i = "''web''"
             and t = web_tunnel]
  note n = statusChanges_events [where env = no_ssh_env and tm = web_manager and i = "''web''"
             and t = web_tunnel]
  note r = statusChanges_events [where env = ok_env and tm = running_manager and i = "''web''"
             and t = "web_tunnel\<lparr> Status := StatusRunning, PID := 4242 \<rparr>"]
  note f = statusChanges_events [where env = ok_env and tm = full_manager and i = "''web''"
             and t = web_tunnel and old = StatusConnecting and new = StatusRunning and err = None]
  have qw: "queue_ok web_manager"
    by (simp add: queue_ok_def web_manager_def make_chan_def)
  have qf: "queue_ok full_manager"
    by (simp add: queue_ok_def full_manager_def)
  have sw: "statusChanges web_manager = \<lparr> capacity = 100, buffer = [] \<rparr>"
    by (simp add: web_manager_def make_chan_def)
  have sr: "statusChanges running_manager = \<lparr> capacity = 100, buffer = [] \<rparr>"
    by (simp add: running_manager_def web_manager_def make_chan_def)
  have tr: "tunnels running_manager = [(''web'', web_tunnel\<lparr> Status := StatusRunning, PID := 4242 \<rparr>)]"
    by (simp add: running_manager_def)
  have le: "LastError (web_tunnel\<lparr> Status := StatusRunning, PID := 4242 \<rparr>) = None"
    by (simp add: web_tunnel_def)
  have a0: "statusChanges (snd (StartTunnel ok_env ''web'' web_manager)) =
      offered \<lparr> TunnelID = ''web'', OldStatus = StatusConnecting, NewStatus = StatusRunning, Error = None \<rparr>
        (offered \<lparr> TunnelID = ''web'', OldStatus = Status web_tunnel, NewStatus = StatusConnecting,
                   Error = None \<rparr> (statusChanges web_manager))"
    using w web_manager_web web_tunnel_not_running StartTunnel_web_ok by blast
  have a: "statusChanges (snd (StartTunnel ok_env ''web'' web_manager)) =
     \<lparr> capacity = 100,
       buffer = [\<lparr> TunnelID = ''web'', OldStatus = StatusStopped, NewStatus = StatusConnecting, Error = None \<rparr>,
                 \<lparr> TunnelID = ''web'', OldStatus = StatusConnecting, NewStatus = StatusRunning, Error = None \<rparr>] \<rparr>"
    by (simp add: a0 sw web_tunnel_stopped offered_def)
  have "fst (StartTunnel no_ssh_env ''web'' web_manager) \<noteq> None"
    by (simp add: StartTunnel_web_no_ssh)
  then have "\<exists>cause. fst (StartTunnel no_ssh_env ''web'' web_manager) = Some (Wrap ''failed to start tunnel'' cause)
       \<and> statusChanges (snd (StartTunnel no_ssh_env ''web'' web_manager)) =
           offered \<lparr> TunnelID = ''web'', OldStatus = StatusConnecting, NewStatus = StatusError,
                     Error = Some cause \<rparr>
             (offered \<lparr> TunnelID = ''web'', OldStatus = Status web_tunnel, NewStatus = StatusConnecting,
                        Error = None \<rparr> (statusChanges web_manager))"
    using n web_manager_web web_tunnel_not_running by blast
  then have b0: "statusChanges (snd (StartTunnel no_ssh_env ''web'' web_manager)) =
           offered \<lparr> TunnelID = ''web'', OldStatus = StatusConnecting, NewStatus = StatusError,
                     Error = Some (Wrap ''failed to start SSH process''
                                  (OSError ''executable file not found'')) \<rparr>
             (offered \<lparr> TunnelID = ''web'', OldStatus = Status web_tunnel, NewStatus = StatusConnecting,
                        Error = None \<rparr> (statusChanges web_manager))"
    by (auto simp: StartTunnel_web_no_ssh)
  have b: "statusChanges (snd (StartTunnel no_ssh_env ''web'' web_manager)) =
     \<lparr> capacity = 100,
       buffer = [\<lparr> TunnelID = ''web'', OldStatus = StatusStopped, NewStatus = StatusConnecting, Error = None \<rparr>,
                 \<lparr> TunnelID = ''web'', OldStatus = StatusConnecting, NewStatus = StatusError,
                   Error = Some (Wrap ''failed to start SSH process''
                                  (OSError ''executable file not found'')) \<rparr>] \<rparr>"
    by (simp add: b0 sw web_tunnel_stopped offered_def)
  have rr: "Status (web_tunnel\<lparr> Status := StatusRunning, PID := 4242 \<rparr>) = StatusRunning"
    by simp
  have dr: "distinct (map fst (tunnels running_manager))
      \<and> (''web'', web_tunnel\<lparr> Status := StatusRunning, PID := 4242 \<rparr>) \<in> set (tunnels running_manager)"
    by (simp add: tr)
  have c0: "statusChanges (snd (StopTunnel ok_env ''web'' running_manager)) =
         offered \<lparr> TunnelID = ''web'', OldStatus = StatusRunning, NewStatus = StatusStopped, Error = None \<rparr>
           (statusChanges running_manager)
     \<and> statusChanges (monitorTunnel_exit ok_env ''web'' running_manager) =
         offered \<lparr> TunnelID = ''web'', OldStatus = StatusRunning, NewStatus = StatusStopped,
                   Error = LastError (web_tunnel\<lparr> Status := StatusRunning, PID := 4242 \<rparr>) \<rparr>
           (statusChanges running_manager)"
    using r running_manager_web rr by blast
  have c1: "statusChanges (StopAllTunnels_update ok_env running_manager) =
     fold (\<lambda>(k, u) q.
             if Status u = StatusRunning
             then offered \<lparr> TunnelID = k, OldStatus = StatusRunning, NewStatus = StatusStopped, Error = None \<rparr> q
             else q) (tunnels running_manager) (statusChanges running_manager)"
    using r by blast
  have c2: "map_option Status (map_of (tunnels (StopAllTunnels_update ok_env running_manager)) ''web'') =
         Some (if Status (web_tunnel\<lparr> Status := StatusRunning, PID := 4242 \<rparr>) = StatusRunning
               then StatusStopped else Status (web_tunnel\<lparr> Status := StatusRunning, PID := 4242 \<rparr>))"
    using r dr by blast
  have c: "statusChanges (snd (StopTunnel ok_env ''web'' running_manager)) =
     \<lparr> capacity = 100,
       buffer = [\<lparr> TunnelID = ''web'', OldStatus = StatusRunning, NewStatus = StatusStopped, Error = None \<rparr>] \<rparr>
   \<and> statusChanges (monitorTunnel_exit ok_env ''web'' running_manager) =
     \<lparr> capacity = 100,
       buffer = [\<lparr> TunnelID = ''web'', OldStatus = StatusRunning, NewStatus = StatusStopped, Error = None \<rparr>] \<rparr>
   \<and> statusChanges (StopAllTunnels_update ok_env running_manager) =
     \<lparr> capacity = 100,
       buffer = [\<lparr> TunnelID = ''web'', OldStatus = StatusRunning, NewStatus = StatusStopped, Error = None \<rparr>] \<rparr>
   \<and> map_option Status (map_of (tunnels (StopAllTunnels_update ok_env running_manager)) ''web'')
     = Some StatusStopped"
    by (simp add: c0 c1 c2 sr tr le offered_def)
  have d: "notifyStatusChange ''web'' StatusConnecting StatusRunning None full_manager = full_manager"
    using f full_manager_full by blast
  have e: "statusChanges (snd (StartTunnel ok_env ''web'' full_manager)) = statusChanges full_manager"
    using f full_manager_web web_tunnel_not_running
    by (cases "fst (StartTunnel ok_env ''web'' full_manager)") (auto simp: offered_full_manager)
  have g: "queue_ok (snd (StartTunnel ok_env ''web'' full_manager))"
    using f qf by blast
  from qw web_manager_web web_tunnel_stopped StartTunnel_web_ok a b running_manager_web c
    qf full_manager_full d e g
  show ?thesis by blast
qed

text \<open>
  The claim speaks of every status transition. \<^verbatim>\<open>restoreTunnelStates\<close> makes one without an
  event: a tunnel that is loaded as stopped and whose ledger entry has a running process is
  set to \<^verbatim>\<open>running\<close>, and the queue, which is empty, stays empty.
\<close>

theorem restoreTunnelStates_emits_nothing:
  "map_option Status (map_of (tunnels restarted_manager) ''web'') = Some StatusStopped
 \<and> statusChanges restarted_manager = \<lparr> capacity = 100, buffer = [] \<rparr>
 \<and> map_option Status (map_of (tunnels (restoreTunnelStates ok_env restarted_manager)) ''web'')
     = Some StatusRunning
 \<and> statusChanges (restoreTunnelStates ok_env restarted_manager) = \<lparr> capacity = 100, buffer = [] \<rparr>"
  by (simp add: restoreTunnelStates_def restoreEntry_def RemovePid_def LoadPids_def cleanPids_def
        SavePids_def shareMap_def isProcessRunning_def Let_def make_chan_def
        restarted_manager_def web_manager_def web_tunnel_def three_pids_def ok_env_def)

subsection \<open>Listing the tunnels of a profile\<close>

text \<open>\<^verbatim>\<open>Clone\<close> copies every field but \<^verbatim>\<open>Profile\<close> and the process handle.\<close>

lemma Clone_eq: "Clone t = t\<lparr> Profile := [], process := None \<rparr>"
  by (cases "StartedAt t") (simp_all add: Clone_def)

lemma fold_collect:
  "fold (\<lambda>(k, tunnel) acc.
           if Profile tunnel = p \<or> (p = ''default'' \<and> Profile tunnel = [])
           then acc @ [Clone tunnel] else acc) al acc
   = acc @ map (Clone \<circ> snd) (filter (in_profile p \<circ> snd) al)"
  by (induction al arbitrary: acc) (auto simp: in_profile_def)

text \<open>
  What \<^verbatim>\<open>GetTunnelsByProfile\<close> does: it selects the tunnels whose profile is the given name,
  or is empty when the name is "default", clones them, and sorts the clones by name.
\<close>

lemma GetTunnelsByProfile_eq:
  "GetTunnelsByProfile tm p =
     sort_key Name (map (Clone \<circ> snd) (filter (in_profile p \<circ> snd) (tunnels tm)))"
  using fold_collect [of p "tunnels tm" "[]"] by (simp add: GetTunnelsByProfile_def)

lemma GetTunnelsByProfile_sorted: "sorted (map Name (GetTunnelsByProfile tm p))"
  by (simp add: GetTunnelsByProfile_eq)

lemma GetTunnelsByProfile_set:
  "set (GetTunnelsByProfile tm p) = Clone ` {t. \<exists>k. (k, t) \<in> set (tunnels tm) \<and> in_profile p t}"
  by (force simp: GetTunnelsByProfile_eq)

lemma GetTunnelsByProfile_length:
  "length (GetTunnelsByProfile tm p) = length (filter (in_profile p \<circ> snd) (tunnels tm))"
  by (simp add: GetTunnelsByProfile_eq)

lemma GetTunnelsByProfile_Profile:
  "t \<in> set (GetTunnelsByProfile tm p) \<Longrightarrow> Profile t = []"
  by (auto simp: GetTunnelsByProfile_set Clone_eq)

text \<open>
  Claim C10. The selection and the order are as the claim says (the lemmas above), but the
  elements of the result are not copies of the selected tunnels: asked for the profile
  "prod", the registry that holds "db" in that profile returns a tunnel whose profile is
  empty.
\<close>

theorem GetTunnelsByProfile_loses_Profile:
  "GetTunnelsByProfile prod_manager ''prod'' = [db_tunnel\<lparr> Profile := [] \<rparr>]
 \<and> Profile db_tunnel = ''prod''
 \<and> map Profile (GetTunnelsByProfile prod_manager ''prod'') = [[]]"
  by (simp add: GetTunnelsByProfile_eq in_profile_def prod_manager_def db_tunnel_def web_tunnel_def
        Clone_eq)

end
